theory Spec2Isabelle
  imports Main "HOL-Library.Char_ord" "HOL-Library.List_Lexorder"
begin

section \<open>Strings of the host language\<close>

text \<open>
  The workbench is a TypeScript component; its strings are sequences of UTF-16 code
  units. The model writes a string as a \<^typ>\<open>string\<close>, one \<^typ>\<open>char\<close> per code unit, and so
  covers the code units below 256 (ASCII and Latin-1). Character classes of the regular
  expressions are ranges of code units, compared with the order of \<open>Char_ord\<close>.
\<close>

definition isUpper :: "char \<Rightarrow> bool" where
  "isUpper c \<longleftrightarrow> CHR ''A'' \<le> c \<and> c \<le> CHR ''Z''"

definition isLower :: "char \<Rightarrow> bool" where
  "isLower c \<longleftrightarrow> CHR ''a'' \<le> c \<and> c \<le> CHR ''z''"

definition isDigit :: "char \<Rightarrow> bool" where
  "isDigit c \<longleftrightarrow> CHR ''0'' \<le> c \<and> c \<le> CHR ''9''"

text \<open>The class \<^verbatim>\<open>[a-zA-Z0-9]\<close>.\<close>

definition isAlnum :: "char \<Rightarrow> bool" where
  "isAlnum c \<longleftrightarrow> isLower c \<or> isUpper c \<or> isDigit c"

text \<open>The class \<^verbatim>\<open>[A-Za-z0-9_]\<close>.\<close>

definition isWord :: "char \<Rightarrow> bool" where
  "isWord c \<longleftrightarrow> isUpper c \<or> isLower c \<or> isDigit c \<or> c = CHR ''_''"

text \<open>The class \<^verbatim>\<open>[A-Za-z_]\<close>.\<close>

definition isIdentStart :: "char \<Rightarrow> bool" where
  "isIdentStart c \<longleftrightarrow> isUpper c \<or> isLower c \<or> c = CHR ''_''"

text \<open>
  White space as \<^verbatim>\<open>String.prototype.trim\<close> reads it, for code units below 256: tab, line
  feed, vertical tab, form feed, carriage return, space and the no-break space.
\<close>

definition isSpace :: "char \<Rightarrow> bool" where
  "isSpace c \<longleftrightarrow> c \<in> {CHR 0x09, CHR 0x0A, CHR 0x0B, CHR 0x0C, CHR 0x0D, CHR 0x20, CHR 0xA0}"

definition trim :: "string \<Rightarrow> string" where
  "trim s = rev (dropWhile isSpace (rev (dropWhile isSpace s)))"

text \<open>
  \<^verbatim>\<open>toUpperCase\<close> is called on a segment's first character in \<open>toPascalCase\<close> and on
  the whole string in \<open>toApiMacro\<close>; at both places every character is in
  \<^verbatim>\<open>[A-Za-z0-9_]\<close> (lemmas \<open>segments_alnum\<close> and \<open>macro_body_word\<close> below), where the
  operation changes exactly the letters a to z.
\<close>

definition upperChar :: "char \<Rightarrow> char" where
  "upperChar c = (if isLower c then char_of (of_char c - (32::nat)) else c)"

definition toUpperCase :: "string \<Rightarrow> string" where
  "toUpperCase s = map upperChar s"

text \<open>
  \<^verbatim>\<open>toLowerCase\<close> for code units below 256: A to Z, and the Latin-1 capitals 0xC0 to 0xDE
  but for the multiplication sign 0xD7, move up by 32.
\<close>

definition lowerChar :: "char \<Rightarrow> char" where
  "lowerChar c =
     (if isUpper c \<or> (CHR 0xC0 \<le> c \<and> c \<le> CHR 0xDE \<and> c \<noteq> CHR 0xD7)
      then char_of (of_char c + (32::nat)) else c)"

definition toLowerCase :: "string \<Rightarrow> string" where
  "toLowerCase s = map lowerChar s"

text \<open>\<^verbatim>\<open>a || b\<close> on strings: the empty string is the only falsy one.\<close>

definition orElse :: "string \<Rightarrow> string \<Rightarrow> string" where
  "orElse a b = (if a = [] then b else a)"

text \<open>\<^verbatim>\<open>s.split(sep)\<close> for a separator of one character; the empty string gives \<^verbatim>\<open>[""]\<close>.\<close>

fun split :: "char \<Rightarrow> string \<Rightarrow> string list" where
  "split sep [] = [[]]"
| "split sep (c # cs) =
     (if c = sep then [] # split sep cs
      else (case split sep cs of [] \<Rightarrow> [[c]] | w # ws \<Rightarrow> (c # w) # ws))"

text \<open>\<^verbatim>\<open>xs.join(sep)\<close>.\<close>

fun join :: "string \<Rightarrow> string list \<Rightarrow> string" where
  "join sep [] = []"
| "join sep [x] = x"
| "join sep (x # y # ys) = x @ sep @ join sep (y # ys)"

text \<open>
  A non-negative integer in a template literal: its decimal digits. (The indices the
  component prints are array positions and loop counters, far below 2^53.)
\<close>

definition digitChar :: "nat \<Rightarrow> char" where
  "digitChar d = char_of (48 + d)"

fun showNat :: "nat \<Rightarrow> string" where
  "showNat n = (if n < 10 then [digitChar n] else showNat (n div 10) @ [digitChar (n mod 10)])"

declare showNat.simps [simp del]

section \<open>Identifier utilities\<close>

text \<open>\<^verbatim>\<open>value.replace(/[^a-zA-Z0-9]+/g, " ")\<close>: every maximal run outside the class becomes one space.\<close>

function replaceNonAlnumRuns :: "string \<Rightarrow> string" where
  "replaceNonAlnumRuns [] = []"
| "replaceNonAlnumRuns (c # cs) =
     (if isAlnum c then c # replaceNonAlnumRuns cs
      else CHR '' '' # replaceNonAlnumRuns (dropWhile (\<lambda>d. \<not> isAlnum d) cs))"
  by pat_completeness auto
termination
  by (relation "measure length") (auto simp: le_imp_less_Suc length_dropWhile_le)

text \<open>\<^verbatim>\<open>segment.charAt(0).toUpperCase() + segment.slice(1)\<close>.\<close>

definition capitalise :: "string \<Rightarrow> string" where
  "capitalise segment = toUpperCase (take 1 segment) @ drop 1 segment"

definition toPascalCase :: "string \<Rightarrow> string" where
  "toPascalCase v =
     concat (map capitalise (filter (\<lambda>s. s \<noteq> []) (split CHR '' '' (replaceNonAlnumRuns v))))"

text \<open>
  \<^verbatim>\<open>.replace(/([a-z0-9])([A-Z])/g, "$1_$2")\<close>: matches are found left to right and do
  not overlap, so the search goes on after the capital of a match.
\<close>

fun camelBoundaries :: "string \<Rightarrow> string" where
  "camelBoundaries (a # b # cs) =
     (if (isLower a \<or> isDigit a) \<and> isUpper b then a # CHR ''_'' # b # camelBoundaries cs
      else a # camelBoundaries (b # cs))"
| "camelBoundaries cs = cs"

text \<open>\<^verbatim>\<open>.replace(/_+/g, "_")\<close>.\<close>

function collapseUnderscores :: "string \<Rightarrow> string" where
  "collapseUnderscores [] = []"
| "collapseUnderscores (c # cs) =
     (if c = CHR ''_'' then CHR ''_'' # collapseUnderscores (dropWhile (\<lambda>d. d = CHR ''_'') cs)
      else c # collapseUnderscores cs)"
  by pat_completeness auto
termination
  by (relation "measure length") (auto simp: le_imp_less_Suc length_dropWhile_le)

text \<open>\<^verbatim>\<open>.replace(/^_|_$/g, "")\<close>: one underscore off the start, one off the end.\<close>

definition stripEdgeUnderscores :: "string \<Rightarrow> string" where
  "stripEdgeUnderscores s =
     (let t = (case s of c # cs \<Rightarrow> if c = CHR ''_'' then cs else s | [] \<Rightarrow> [])
      in if t \<noteq> [] \<and> last t = CHR ''_'' then butlast t else t)"

definition toApiMacro :: "string \<Rightarrow> string" where
  "toApiMacro v =
     toUpperCase
       (stripEdgeUnderscores
         (collapseUnderscores
           (camelBoundaries (map (\<lambda>c. if isAlnum c then c else CHR ''_'') v))))
     @ ''_API''"

text \<open>
  \<open>sanitiseIdentifier\<close>: delete what is outside \<^verbatim>\<open>[A-Za-z0-9_]\<close>, delete the leading
  run outside \<^verbatim>\<open>[A-Za-z_]\<close>, and put an underscore before a leading digit
  (\<^verbatim>\<open>.replace(/^[0-9]/, "_$&")\<close>).
\<close>

definition prefixLeadingDigit :: "string \<Rightarrow> string" where
  "prefixLeadingDigit s = (case s of c # cs \<Rightarrow> if isDigit c then CHR ''_'' # s else s | [] \<Rightarrow> [])"

definition sanitiseIdentifier :: "string \<Rightarrow> string" where
  "sanitiseIdentifier v =
     prefixLeadingDigit (dropWhile (\<lambda>c. \<not> isIdentStart c) (filter isWord v))"

section \<open>The data model\<close>

text \<open>
  The records of the component. \<open>BlueprintParameter\<close> has the fields \<^verbatim>\<open>name\<close> and
  \<^verbatim>\<open>type\<close>, \<open>BlueprintFunction\<close> the fields \<^verbatim>\<open>name\<close>, \<^verbatim>\<open>returnType\<close>,
  \<^verbatim>\<open>description\<close> and \<^verbatim>\<open>parameters\<close>; where two records share a field name the
  field carries its record's initial (\<open>p\<close>, \<open>f\<close>, and \<open>n\<close> for a normalized function).
\<close>

datatype LoadingPhase = Default | PostDefault | PostEngineInit | PostSplash

fun phaseText :: "LoadingPhase \<Rightarrow> string" where
  "phaseText Default = ''Default''"
| "phaseText PostDefault = ''PostDefault''"
| "phaseText PostEngineInit = ''PostEngineInit''"
| "phaseText PostSplash = ''PostSplash''"

record PluginMetadata =
  pluginName :: string
  friendlyName :: string
  version :: string
  description :: string
  category :: string
  loadingPhase :: LoadingPhase
  supportedTargets :: string
  enableEditorModule :: bool
  enableBlueprintLibrary :: bool
  enableAsyncActions :: bool
  enableEditorMenu :: bool

record BlueprintParameter =
  pname :: string
  ptype :: string

record BlueprintFunction =
  fname :: string
  freturnType :: string
  fdescription :: string
  fparameters :: "BlueprintParameter list"

record NormalizedFunction =
  key :: string
  displayName :: string
  ndescription :: string
  nreturnType :: string
  nparameters :: "BlueprintParameter list"
  metadataSegments :: "string list"

section \<open>The endpoint normalizer\<close>

text \<open>
  A \<^verbatim>\<open>Set<string>\<close> is the list of its members in insertion order; \<^verbatim>\<open>taken.add\<close>
  leaves a set that has the member as it is.
\<close>

definition setAdd :: "string \<Rightarrow> string list \<Rightarrow> string list" where
  "setAdd x xs = (if x \<in> set xs then xs else xs @ [x])"

text \<open>
  Reading a decimal numeral back; it is the left inverse of \<open>showNat\<close> that the
  termination of the renaming loop rests on.
\<close>

definition readNat :: "string \<Rightarrow> nat" where
  "readNat s = foldl (\<lambda>a c. 10 * a + (of_char c - 48)) 0 s"

lemma readNat_showNat: "readNat (showNat n) = n"
proof (induction n rule: showNat.induct)
  case (1 n)
  show ?case
  proof (cases "n < 10")
    case True
    then show ?thesis
      by (subst showNat.simps) (simp add: readNat_def digitChar_def)
  next
    case False
    have "n mod 10 < 10" by simp
    then have d: "of_char (digitChar (n mod 10)) - 48 = n mod 10"
      by (simp add: digitChar_def)
    have "readNat (showNat n) = 10 * readNat (showNat (n div 10)) + n mod 10"
      using False d by (subst showNat.simps) (simp add: readNat_def)
    with 1 False show ?thesis by simp
  qed
qed

lemma showNat_inj: "showNat m = showNat n \<Longrightarrow> m = n"
  by (metis readNat_showNat)

lemma finite_suffixes: "finite {k. P k \<and> nm @ showNat k \<in> set taken}"
proof -
  have "inj (\<lambda>k. nm @ showNat k)"
    by (auto simp: inj_on_def dest: showNat_inj)
  then have "finite ((\<lambda>k. nm @ showNat k) -` set taken)"
    by (simp add: finite_vimageI)
  then show ?thesis
    by (rule rev_finite_subset) auto
qed

text \<open>
  \<open>uniqueParameterName\<close>: the loop
  \<^verbatim>\<open>while (taken.has(candidate)) { candidate = `${name}${index++}`; }\<close>
  with its two variables, then \<^verbatim>\<open>taken.add(candidate)\<close>; the function returns the
  candidate and the set as the call leaves it.
\<close>

function uniqueLoop :: "string \<Rightarrow> string list \<Rightarrow> string \<Rightarrow> nat \<Rightarrow> string" where
  "uniqueLoop nm taken candidate index =
     (if candidate \<in> set taken then uniqueLoop nm taken (nm @ showNat index) (Suc index)
      else candidate)"
  by pat_completeness auto
termination
proof (relation "measure (\<lambda>(nm, taken, candidate, index).
          card {k. index \<le> k \<and> nm @ showNat k \<in> set taken}
          + (if candidate \<in> set taken then 1 else 0))", goal_cases)
  case 1
  show ?case by simp
next
  case (2 nm taken candidate index)
  let ?S = "\<lambda>i. {k. i \<le> k \<and> nm @ showNat k \<in> set taken}"
  show ?case
  proof (cases "nm @ showNat index \<in> set taken")
    case True
    have "?S index = insert index (?S (Suc index))"
      using True by (auto simp: le_Suc_eq)
    moreover have "index \<notin> ?S (Suc index)" by simp
    moreover have "finite (?S (Suc index))" by (rule finite_suffixes)
    ultimately have "card (?S index) = Suc (card (?S (Suc index)))"
      by (simp del: insert_iff)
    with 2 True show ?thesis by simp
  next
    case False
    have "k \<noteq> index" if "nm @ showNat k \<in> set taken" for k
      using that False by auto
    then have "?S index = ?S (Suc index)"
      by (auto simp: Suc_le_eq order_less_le)
    with 2 False show ?thesis by simp
  qed
qed

declare uniqueLoop.simps [simp del]

definition uniqueParameterName :: "string \<Rightarrow> string list \<Rightarrow> string \<times> string list" where
  "uniqueParameterName nm taken =
     (let candidate = uniqueLoop nm taken nm 1 in (candidate, setAdd candidate taken))"

text \<open>
  The inner \<^verbatim>\<open>fn.parameters.map\<close> of \<open>normalizedBlueprintFunctions\<close>, which threads the
  set \<^verbatim>\<open>taken\<close> through the parameters; \<open>index\<close> is the function's position.
\<close>

fun sanitizedParameters ::
  "nat \<Rightarrow> string list \<Rightarrow> BlueprintParameter list \<Rightarrow> BlueprintParameter list \<times> string list" where
  "sanitizedParameters index taken [] = ([], taken)"
| "sanitizedParameters index taken (parameter # rest) =
     (let safeType = orElse (trim (ptype parameter)) ''float'';
          safeName = orElse (sanitiseIdentifier (pname parameter)) (''Param'' @ showNat index);
          (unique, taken1) = uniqueParameterName safeName taken;
          (rest1, taken2) = sanitizedParameters index taken1 rest
      in (\<lparr>pname = unique, ptype = safeType\<rparr> # rest1, taken2))"

definition worldContext :: BlueprintParameter where
  \<open>worldContext = \<lparr>pname = ''WorldContextObject'', ptype = ''UObject*''\<rparr>\<close>

definition normalizeFunction :: "string \<Rightarrow> nat \<Rightarrow> BlueprintFunction \<Rightarrow> NormalizedFunction" where
  \<open>normalizeFunction friendly index fn =
     (let (sanitized, taken) = sanitizedParameters index [] (fparameters fn);
          hasWorldContext = list_ex (\<lambda>parameter. pname parameter = ''WorldContextObject'') sanitized;
          (parameters, taken1, hasWorldContext1) =
            (if \<not> hasWorldContext
             then (worldContext # sanitized, setAdd ''WorldContextObject'' taken, True)
             else (sanitized, taken, hasWorldContext));
          returnType = orElse (trim (freturnType fn)) ''void'';
          segments = [''Category="'' @ friendly @ ''|Blueprint"'']
            @ (if hasWorldContext1 then [''WorldContext="WorldContextObject"''] else [])
      in \<lparr>key = fname fn @ ''-'' @ showNat index,
          displayName = toPascalCase (orElse (sanitiseIdentifier (fname fn)) ''GeneratedFunction''),
          ndescription = fdescription fn,
          nreturnType = returnType,
          nparameters = parameters,
          metadataSegments = segments\<rparr>)\<close>

text \<open>\<^verbatim>\<open>blueprintFunctions.map((fn, index) => ...)\<close>.\<close>

definition normalizedBlueprintFunctions ::
  "string \<Rightarrow> BlueprintFunction list \<Rightarrow> NormalizedFunction list" where
  "normalizedBlueprintFunctions friendly fns =
     map (\<lambda>(index, fn). normalizeFunction friendly index fn) (enumerate 0 fns)"

section \<open>Derived identifiers\<close>

definition moduleName :: "PluginMetadata \<Rightarrow> string" where
  "moduleName md = toPascalCase (orElse (pluginName md) ''AddonModule'')"

definition moduleApiMacro :: "string \<Rightarrow> string" where
  "moduleApiMacro moduleName' = toApiMacro moduleName'"

definition logCategory :: "string \<Rightarrow> string" where
  "logCategory moduleName' = ''Log'' @ moduleName'"

definition moduleClass :: "string \<Rightarrow> string" where
  "moduleClass moduleName' = ''F'' @ moduleName' @ ''Module''"

definition blueprintClass :: "string \<Rightarrow> string" where
  "blueprintClass moduleName' = ''U'' @ moduleName' @ ''BlueprintLibrary''"

definition asyncActionClass :: "string \<Rightarrow> string" where
  "asyncActionClass moduleName' = ''U'' @ moduleName' @ ''AsyncAction''"

section \<open>The descriptor\<close>

text \<open>
  The value handed to \<^verbatim>\<open>JSON.stringify(value, null, 2)\<close>, and the serialisation of
  such values: a string is quoted with the escapes of the language's \<^verbatim>\<open>QuoteJSONString\<close>,
  an empty array is \<^verbatim>\<open>[]\<close>, and the members of an array or object stand on lines
  of their own, indented by two more spaces than their parent. The two numbers of the
  descriptor are the literals 3 and 1.
\<close>

datatype json =
    JString string
  | JNumber nat
  | JBool bool
  | JArray "json list"
  | JObject "(string \<times> json) list"

definition hexDigit :: "nat \<Rightarrow> char" where
  "hexDigit d = ''0123456789abcdef'' ! (d mod 16)"

definition quoteChar :: "char \<Rightarrow> string" where
  "quoteChar c =
     (if c = CHR 0x22 then [CHR 0x5C, CHR 0x22]
      else if c = CHR 0x5C then [CHR 0x5C, CHR 0x5C]
      else if c = CHR 0x08 then [CHR 0x5C, CHR ''b'']
      else if c = CHR 0x09 then [CHR 0x5C, CHR ''t'']
      else if c = CHR 0x0A then [CHR 0x5C, CHR ''n'']
      else if c = CHR 0x0C then [CHR 0x5C, CHR ''f'']
      else if c = CHR 0x0D then [CHR 0x5C, CHR ''r'']
      else if c < CHR 0x20
        then [CHR 0x5C, CHR ''u'', CHR ''0'', CHR ''0'',
              hexDigit (of_char c div 16), hexDigit (of_char c)]
      else [c])"

definition quoteJSON :: "string \<Rightarrow> string" where
  "quoteJSON s = [CHR 0x22] @ concat (map quoteChar s) @ [CHR 0x22]"

fun serialize :: "string \<Rightarrow> json \<Rightarrow> string" where
  "serialize indent (JString s) = quoteJSON s"
| "serialize indent (JNumber n) = showNat n"
| "serialize indent (JBool b) = (if b then ''true'' else ''false'')"
| "serialize indent (JArray xs) =
     (if xs = [] then ''[]''
      else ''[\<newline>'' @ (indent @ ''  '')
        @ join ('',\<newline>'' @ (indent @ ''  '')) (map (serialize (indent @ ''  '')) xs)
        @ ''\<newline>'' @ indent @ '']'')"
| "serialize indent (JObject kvs) =
     (if kvs = [] then ''{}''
      else ''{\<newline>'' @ (indent @ ''  '')
        @ join ('',\<newline>'' @ (indent @ ''  ''))
            (map (\<lambda>kv. quoteJSON (fst kv) @ '': '' @ serialize (indent @ ''  '') (snd kv)) kvs)
        @ ''\<newline>'' @ indent @ ''}'')"

definition stringify :: "json \<Rightarrow> string" where
  "stringify v = serialize [] v"

text \<open>The local \<^verbatim>\<open>modules\<close> of \<open>descriptorJson\<close>: the runtime entry, then \<^verbatim>\<open>modules.push\<close>.\<close>

definition descriptorModules :: "PluginMetadata \<Rightarrow> string \<Rightarrow> json list" where
  "descriptorModules md moduleName' =
     [JObject [(''Name'', JString moduleName'),
               (''Type'', JString ''Runtime''),
               (''LoadingPhase'', JString (phaseText (loadingPhase md)))]]
     @ (if enableEditorModule md
        then [JObject [(''Name'', JString (moduleName' @ ''Editor'')),
                       (''Type'', JString ''Editor''),
                       (''LoadingPhase'', JString ''Default'')]]
        else [])"

definition descriptorObject :: "PluginMetadata \<Rightarrow> string \<Rightarrow> json" where
  "descriptorObject md moduleName' =
     JObject
      [(''FileVersion'', JNumber 3),
       (''Version'', JNumber 1),
       (''VersionName'', JString (version md)),
       (''FriendlyName'', JString (friendlyName md)),
       (''Description'', JString (description md)),
       (''Category'', JString (category md)),
       (''CreatedBy'', JString ''Unreal Addon Architect''),
       (''CreatedByURL'', JString ''https://agentic-8d19d81d.vercel.app''),
       (''EngineVersion'', JString ''5.3.0''),
       (''Modules'', JArray (descriptorModules md moduleName')),
       (''Plugins'',
          JArray (if enableAsyncActions md
                  then [JObject [(''Name'', JString ''GameplayTasks''), (''Enabled'', JBool True)]]
                  else [])),
       (''SupportedTargetPlatforms'',
          JArray (map (\<lambda>entry. JString (trim entry)) (split CHR '','' (supportedTargets md))))]"

definition descriptorJson :: "PluginMetadata \<Rightarrow> string \<Rightarrow> string" where
  "descriptorJson md moduleName' = stringify (descriptorObject md moduleName')"

text \<open>Reading a serialised value's parts back: a member of an object, the elements of an array.\<close>

fun jmember :: "string \<Rightarrow> json \<Rightarrow> json option" where
  "jmember k (JObject kvs) = map_of kvs k"
| "jmember k v = None"

fun jelements :: "json \<Rightarrow> json list" where
  "jelements (JArray xs) = xs"
| "jelements v = []"

section \<open>The runtime module\<close>

definition moduleHeader :: "PluginMetadata \<Rightarrow> string \<Rightarrow> string \<Rightarrow> string" where
  \<open>moduleHeader md logCategory' moduleClass' =
     (let editorSignature =
        (if enableEditorModule md
         then ''\<newline>''
              @ ''#if WITH_EDITOR\<newline>''
              @ ''  void RegisterEditorUtilities();\<newline>''
              @ ''#endif''
         else [])
      in ''#pragma once\<newline>''
         @ ''\<newline>''
         @ ''#include "Modules/ModuleInterface.h"\<newline>''
         @ ''#include "Modules/ModuleManager.h"\<newline>''
         @ ''\<newline>''
         @ ''DECLARE_LOG_CATEGORY_EXTERN('' @ logCategory' @ '', Log, All);\<newline>''
         @ ''\<newline>''
         @ ''class '' @ moduleClass' @ '' : public IModuleInterface\<newline>''
         @ ''{\<newline>''
         @ ''public:\<newline>''
         @ ''  virtual void StartupModule() override;\<newline>''
         @ ''  virtual void ShutdownModule() override;'' @ editorSignature @ ''\<newline>''
         @ ''};'')\<close>

definition moduleSource :: "PluginMetadata \<Rightarrow> string \<Rightarrow> string \<Rightarrow> string \<Rightarrow> string" where
  \<open>moduleSource md logCategory' moduleClass' moduleName' =
     (let editorBody =
        (if enableEditorModule md
         then ''\<newline>''
              @ ''#if WITH_EDITOR\<newline>''
              @ ''void '' @ moduleClass' @ ''::RegisterEditorUtilities()\<newline>''
              @ ''{\<newline>''
              @ ''  // TODO: Register asset factories, detail customizations, level snapshots, or automation tests.\<newline>''
              @ ''}\<newline>''
              @ ''#endif''
         else [])
      in ''#include "'' @ moduleName' @ ''.h"\<newline>''
         @ ''#include "Logging/LogMacros.h"\<newline>''
         @ ''\<newline>''
         @ ''DEFINE_LOG_CATEGORY('' @ logCategory' @ '');\<newline>''
         @ ''IMPLEMENT_MODULE('' @ moduleClass' @ '', '' @ moduleName' @ '');\<newline>''
         @ ''\<newline>''
         @ ''void '' @ moduleClass' @ ''::StartupModule()\<newline>''
         @ ''{\<newline>''
         @ ''  UE_LOG('' @ logCategory' @ '', Display, TEXT("'' @ moduleName' @ '' module started."));\<newline>''
         @ ''#if WITH_EDITOR\<newline>''
         @ ''  if (GIsEditor)\<newline>''
         @ ''  {\<newline>''
         @ ''    RegisterEditorUtilities();\<newline>''
         @ ''  }\<newline>''
         @ ''#endif\<newline>''
         @ ''}\<newline>''
         @ ''\<newline>''
         @ ''void '' @ moduleClass' @ ''::ShutdownModule()\<newline>''
         @ ''{\<newline>''
         @ ''  UE_LOG('' @ logCategory' @ '', Display, TEXT("'' @ moduleName' @ '' module shut down."));\<newline>''
         @ ''}'' @ (if editorBody \<noteq> [] then ''\<newline>'' @ editorBody else []))\<close>

section \<open>The build script\<close>

text \<open>
  The two \<^verbatim>\<open>Set\<close>s of dependency names, filled in the order of the source:
  \<^verbatim>\<open>new Set([...])\<close>, then \<^verbatim>\<open>add\<close> under each flag.
\<close>

definition publicDeps :: "PluginMetadata \<Rightarrow> string list" where
  "publicDeps md =
     (let deps0 = [''Core'', ''CoreUObject'', ''Engine''];
          deps1 = (if enableBlueprintLibrary md then setAdd ''Kismet'' deps0 else deps0);
          deps2 = (if enableAsyncActions md then setAdd ''GameplayTasks'' deps1 else deps1)
      in deps2)"

definition privateDeps :: "PluginMetadata \<Rightarrow> string list" where
  "privateDeps md =
     (let deps0 = [''Slate'', ''SlateCore''];
          deps1 = (if enableBlueprintLibrary md then setAdd ''UMG'' deps0 else deps0);
          deps2 = (if enableEditorModule md
                   then setAdd ''LevelSequence'' (setAdd ''UnrealEd'' deps1) else deps1)
      in deps2)"

text \<open>
  \<^verbatim>\<open>Array.from(deps).sort()\<close> orders strings by their code units, which is the
  lexicographic order of \<open>List_Lexorder\<close> over \<open>Char_ord\<close>.
\<close>

definition formatDependency :: "string list \<Rightarrow> string" where
  \<open>formatDependency deps =
     join '',\<newline>'' (map (\<lambda>dep. ''            "'' @ dep @ ''"'') (sort deps))\<close>

definition buildScript :: "PluginMetadata \<Rightarrow> string \<Rightarrow> string" where
  \<open>buildScript md moduleName' =
     ''using UnrealBuildTool;\<newline>''
     @ ''\<newline>''
     @ ''public class '' @ moduleName' @ '' : ModuleRules\<newline>''
     @ ''{\<newline>''
     @ ''    public '' @ moduleName' @ ''(ReadOnlyTargetRules Target) : base(Target)\<newline>''
     @ ''    {\<newline>''
     @ ''        PCHUsage = PCHUsageMode.UseExplicitOrSharedPCHs;\<newline>''
     @ ''\<newline>''
     @ ''        PublicDependencyModuleNames.AddRange(new string[]\<newline>''
     @ ''        {\<newline>''
     @ formatDependency (publicDeps md) @ ''\<newline>''
     @ ''        });\<newline>''
     @ ''\<newline>''
     @ ''        PrivateDependencyModuleNames.AddRange(new string[]\<newline>''
     @ ''        {\<newline>''
     @ formatDependency (privateDeps md) @ ''\<newline>''
     @ ''        });\<newline>''
     @ ''\<newline>''
     @ ''        if (Target.bBuildEditor)\<newline>''
     @ ''        {\<newline>''
     @ ''            PrivateDependencyModuleNames.AddRange(new string[]\<newline>''
     @ ''            {\<newline>''
     @ ''                "AssetTools",\<newline>''
     @ ''                "EditorFramework"\<newline>''
     @ ''            });\<newline>''
     @ ''        }\<newline>''
     @ ''    }\<newline>''
     @ ''}''\<close>

section \<open>The Blueprint function library\<close>

text \<open>\<^verbatim>\<open>s.startsWith(p)\<close>, \<^verbatim>\<open>s.endsWith(p)\<close> and \<^verbatim>\<open>s.includes(p)\<close>.\<close>

definition startsWith :: "string \<Rightarrow> string \<Rightarrow> bool" where
  "startsWith s p \<longleftrightarrow> take (length p) s = p"

definition endsWith :: "string \<Rightarrow> string \<Rightarrow> bool" where
  "endsWith s p \<longleftrightarrow> startsWith (rev s) (rev p)"

fun includesText :: "string \<Rightarrow> string \<Rightarrow> bool" where
  "includesText [] p \<longleftrightarrow> p = []"
| "includesText (c # cs) p \<longleftrightarrow> startsWith (c # cs) p \<or> includesText cs p"

definition defaultReturnSnippet :: "string \<Rightarrow> string" where
  \<open>defaultReturnSnippet returnType =
     (let trimmed = toLowerCase (trim returnType)
      in if trimmed = ''void'' then []
         else if trimmed = ''bool'' then ''return false;''
         else if includesText trimmed ''float'' \<or> includesText trimmed ''double'' then ''return 0.f;''
         else if startsWith trimmed ''int'' \<or> endsWith trimmed ''32'' \<or> endsWith trimmed ''64''
           then ''return 0;''
         else if trimmed = ''fstring'' then ''return TEXT("");''
         else ''return {};'')\<close>

text \<open>\<^verbatim>\<open>(parameter) => `${parameter.type} ${parameter.name}`\<close>, one entry of a signature.\<close>

definition parameterText :: "BlueprintParameter \<Rightarrow> string" where
  "parameterText parameter = ptype parameter @ '' '' @ pname parameter"

text \<open>The declaration of one function in the header.\<close>

definition functionDeclaration :: "NormalizedFunction \<Rightarrow> string" where
  \<open>functionDeclaration fn =
     ''  /**\<newline>''
     @ ''   * '' @ ndescription fn @ ''\<newline>''
     @ ''   */\<newline>''
     @ ''  UFUNCTION(BlueprintCallable, meta=('' @ join '', '' (metadataSegments fn) @ ''))\<newline>''
     @ ''  static '' @ nreturnType fn @ '' '' @ displayName fn @ ''('' @ join '', '' (map parameterText (nparameters fn)) @ '');''\<close>

definition blueprintHeader ::
  "PluginMetadata \<Rightarrow> string \<Rightarrow> string \<Rightarrow> string \<Rightarrow> NormalizedFunction list \<Rightarrow> string" where
  \<open>blueprintHeader md blueprintClass' moduleApiMacro' moduleName' normalized =
     (if \<not> enableBlueprintLibrary md then []
      else let functionDeclarations =
                 join ''\<newline>\<newline>'' (map functionDeclaration normalized)
           in ''#pragma once\<newline>''
              @ ''\<newline>''
              @ ''#include "Kismet/BlueprintFunctionLibrary.h"\<newline>''
              @ ''#include "'' @ moduleName' @ ''.h"\<newline>''
              @ ''#include "'' @ moduleName' @ ''BlueprintLibrary.generated.h"\<newline>''
              @ ''\<newline>''
              @ ''UCLASS()\<newline>''
              @ ''class '' @ moduleApiMacro' @ '' '' @ blueprintClass' @ '' : public UBlueprintFunctionLibrary\<newline>''
              @ ''{\<newline>''
              @ ''  GENERATED_BODY()\<newline>''
              @ ''\<newline>''
              @ ''public:\<newline>''
              @ functionDeclarations @ ''\<newline>''
              @ ''};'')\<close>

text \<open>The definition of one function in the source file.\<close>

definition functionBody :: "string \<Rightarrow> string \<Rightarrow> NormalizedFunction \<Rightarrow> string" where
  \<open>functionBody blueprintClass' logCategory' fn =
     (let signature = join '', '' (map parameterText (nparameters fn));
          guardReturn =
            (if toLowerCase (nreturnType fn) = ''void'' then ''    return;''
             else ''    '' @ defaultReturnSnippet (nreturnType fn));
          implementationReturn =
            (if toLowerCase (nreturnType fn) = ''void'' then ''  return;''
             else ''  '' @ defaultReturnSnippet (nreturnType fn))
      in nreturnType fn @ '' '' @ blueprintClass' @ ''::'' @ displayName fn @ ''('' @ signature @ '')\<newline>''
         @ ''{\<newline>''
         @ ''  if (!WorldContextObject)\<newline>''
         @ ''  {\<newline>''
         @ ''    UE_LOG('' @ logCategory' @ '', Warning, TEXT("'' @ displayName fn @ '' called without a valid world context."));\<newline>''
         @ guardReturn @ ''\<newline>''
         @ ''  }\<newline>''
         @ ''\<newline>''
         @ ''  // TODO: Implement '' @ displayName fn @ ''. '' @ ndescription fn @ ''\<newline>''
         @ implementationReturn @ ''\<newline>''
         @ ''}'')\<close>

definition blueprintSource ::
  "PluginMetadata \<Rightarrow> string \<Rightarrow> string \<Rightarrow> string \<Rightarrow> NormalizedFunction list \<Rightarrow> string" where
  \<open>blueprintSource md blueprintClass' logCategory' moduleName' normalized =
     (if \<not> enableBlueprintLibrary md then []
      else let fnBodies =
                 join ''\<newline>\<newline>'' (map (functionBody blueprintClass' logCategory') normalized)
           in ''#include "'' @ moduleName' @ ''BlueprintLibrary.h"\<newline>''
              @ ''#include "Engine/World.h"\<newline>''
              @ ''#include "Engine/Engine.h"\<newline>''
              @ ''#include "Kismet/GameplayStatics.h"\<newline>''
              @ ''\<newline>''
              @ fnBodies)\<close>

section \<open>The editor module\<close>

definition editorHeader :: "PluginMetadata \<Rightarrow> string \<Rightarrow> string" where
  \<open>editorHeader md moduleClass' =
     (if \<not> enableEditorModule md then []
      else let editorModuleClass = moduleClass' @ ''Editor''
           in ''#pragma once\<newline>''
              @ ''\<newline>''
              @ ''#include "Modules/ModuleManager.h"\<newline>''
              @ ''\<newline>''
              @ ''class '' @ editorModuleClass @ '' : public IModuleInterface\<newline>''
              @ ''{\<newline>''
              @ ''public:\<newline>''
              @ ''  virtual void StartupModule() override;\<newline>''
              @ ''  virtual void ShutdownModule() override;\<newline>''
              @ ''\<newline>''
              @ ''private:\<newline>''
              @ (if enableEditorMenu md then ''  void RegisterMenus();\<newline>'' else []) @ ''  void RegisterLevelViewportExtensions();\<newline>''
              @ ''};'')\<close>

definition editorSource :: "PluginMetadata \<Rightarrow> string \<Rightarrow> string \<Rightarrow> string \<Rightarrow> string" where
  \<open>editorSource md moduleClass' moduleName' logCategory' =
     (if \<not> enableEditorModule md then []
      else let editorModuleClass = moduleClass' @ ''Editor'';
               includes =
                 [''#include "'' @ moduleName' @ ''Editor.h"'',
                  ''#include "'' @ moduleName' @ ''.h"'',
                  ''#include "LevelEditor.h"'']
                 @ (if enableEditorMenu md then [''#include "ToolMenus.h"''] else []);
               startupCalls =
                 join ''\<newline>''
                   (filter (\<lambda>s. s \<noteq> [])
                     [if enableEditorMenu md then ''  RegisterMenus();'' else [],
                      ''  RegisterLevelViewportExtensions();'']);
               shutdownCalls =
                 (if enableEditorMenu md
                  then ''  if (UToolMenus::IsInitialized())\<newline>''
                       @ ''  {\<newline>''
                       @ ''    UToolMenus::UnregisterOwner(this);\<newline>''
                       @ ''  }''
                  else []);
               menuImplementation =
                 (if enableEditorMenu md
                  then ''\<newline>''
                       @ ''void '' @ editorModuleClass @ ''::RegisterMenus()\<newline>''
                       @ ''{\<newline>''
                       @ ''  if (UToolMenus::IsInitialized() && UToolMenus::Get()->IsMenuRegistered("LevelEditor.MainMenu"))\<newline>''
                       @ ''  {\<newline>''
                       @ ''    auto* Menu = UToolMenus::Get()->ExtendMenu("LevelEditor.MainMenu.Tools");\<newline>''
                       @ ''    FToolMenuSection& Section = Menu->AddSection("section_'' @ moduleName' @ ''", TEXT("'' @ friendlyName md @ ''"));\<newline>''
                       @ ''    Section.AddMenuEntry(\<newline>''
                       @ ''      "Open'' @ moduleName' @ ''Panel",\<newline>''
                       @ ''      FText::FromString("Open '' @ friendlyName md @ '' Panel"),\<newline>''
                       @ ''      FText::FromString("Launches the toolkit command panel."),\<newline>''
                       @ ''      FSlateIcon(),\<newline>''
                       @ ''      FUIAction(FExecuteAction::CreateLambda([]()\<newline>''
                       @ ''      {\<newline>''
                       @ ''        UE_LOG('' @ logCategory' @ '', Display, TEXT("Launching '' @ friendlyName md @ '' tools panel..."));\<newline>''
                       @ ''      }))\<newline>''
                       @ ''    );\<newline>''
                       @ ''  }\<newline>''
                       @ ''}''
                  else [])
           in join ''\<newline>'' includes @ ''\<newline>''
              @ ''\<newline>''
              @ ''void '' @ editorModuleClass @ ''::StartupModule()\<newline>''
              @ ''{\<newline>''
              @ startupCalls @ ''\<newline>''
              @ ''}\<newline>''
              @ ''\<newline>''
              @ ''void '' @ editorModuleClass @ ''::ShutdownModule()\<newline>''
              @ ''{\<newline>''
              @ shutdownCalls @ ''\<newline>''
              @ ''}\<newline>''
              @ ''\<newline>''
              @ ''void '' @ editorModuleClass @ ''::RegisterLevelViewportExtensions()\<newline>''
              @ ''{\<newline>''
              @ ''  FLevelEditorModule& LevelEditorModule = FModuleManager::LoadModuleChecked<FLevelEditorModule>("LevelEditor");\<newline>''
              @ ''  LevelEditorModule.OnMapChanged().AddLambda([](UWorld* World, EMapChangeType ChangeType)\<newline>''
              @ ''  {\<newline>''
              @ ''    UE_LOG('' @ logCategory' @ '', Verbose, TEXT("'' @ friendlyName md @ '' detected map change: %s"), *StaticEnum<EMapChangeType>()->GetNameStringByValue(static_cast<int64>(ChangeType)));\<newline>''
              @ ''  });\<newline>''
              @ ''}\<newline>''
              @ menuImplementation @ ''\<newline>''
              @ ''\<newline>''
              @ ''IMPLEMENT_MODULE('' @ editorModuleClass @ '', '' @ moduleName' @ ''Editor);'')\<close>

section \<open>The asynchronous action\<close>

definition asyncHeader :: "PluginMetadata \<Rightarrow> string \<Rightarrow> string \<Rightarrow> string \<Rightarrow> string" where
  \<open>asyncHeader md asyncActionClass' moduleApiMacro' moduleName' =
     (if \<not> enableAsyncActions md then []
      else ''#pragma once\<newline>''
           @ ''\<newline>''
           @ ''#include "Kismet/BlueprintAsyncActionBase.h"\<newline>''
           @ ''#include "'' @ moduleName' @ ''AsyncAction.generated.h"\<newline>''
           @ ''\<newline>''
           @ ''DECLARE_DYNAMIC_MULTICAST_DELEGATE_OneParam(F'' @ moduleName' @ ''AsyncPayload, float, Progress);\<newline>''
           @ ''\<newline>''
           @ ''UCLASS()\<newline>''
           @ ''class '' @ moduleApiMacro' @ '' '' @ asyncActionClass' @ '' : public UBlueprintAsyncActionBase\<newline>''
           @ ''{\<newline>''
           @ ''  GENERATED_BODY()\<newline>''
           @ ''\<newline>''
           @ ''public:\<newline>''
           @ ''  UFUNCTION(BlueprintCallable, meta=(BlueprintInternalUseOnly="true", WorldContext="WorldContextObject"))\<newline>''
           @ ''  static '' @ asyncActionClass' @ ''* ExecuteTimedTask(UObject* WorldContextObject, float DurationSeconds);\<newline>''
           @ ''\<newline>''
           @ ''  UPROPERTY(BlueprintAssignable)\<newline>''
           @ ''  F'' @ moduleName' @ ''AsyncPayload OnProgress;\<newline>''
           @ ''\<newline>''
           @ ''  UPROPERTY(BlueprintAssignable)\<newline>''
           @ ''  F'' @ moduleName' @ ''AsyncPayload OnComplete;\<newline>''
           @ ''\<newline>''
           @ ''  virtual void Activate() override;\<newline>''
           @ ''\<newline>''
           @ ''private:\<newline>''
           @ ''  void AdvanceProgress();\<newline>''
           @ ''\<newline>''
           @ ''  float Duration = 1.f;\<newline>''
           @ ''  float Elapsed = 0.f;\<newline>''
           @ ''  TObjectPtr<UWorld> CachedWorld;\<newline>''
           @ ''};'')\<close>

definition asyncSource :: "PluginMetadata \<Rightarrow> string \<Rightarrow> string \<Rightarrow> string \<Rightarrow> string" where
  \<open>asyncSource md asyncActionClass' logCategory' moduleName' =
     (if \<not> enableAsyncActions md then []
      else ''#include "'' @ moduleName' @ ''AsyncAction.h"\<newline>''
           @ ''#include "'' @ moduleName' @ ''.h"\<newline>''
           @ ''#include "Engine/World.h"\<newline>''
           @ ''#include "TimerManager.h"\<newline>''
           @ ''\<newline>''
           @ asyncActionClass' @ ''* '' @ asyncActionClass' @ ''::ExecuteTimedTask(UObject* WorldContextObject, float DurationSeconds)\<newline>''
           @ ''{\<newline>''
           @ ''  '' @ asyncActionClass' @ ''* Action = NewObject<'' @ asyncActionClass' @ ''>();\<newline>''
           @ ''  Action->Duration = FMath::Max(DurationSeconds, KINDA_SMALL_NUMBER);\<newline>''
           @ ''  Action->CachedWorld = WorldContextObject ? WorldContextObject->GetWorld() : nullptr;\<newline>''
           @ ''  Action->RegisterWithGameInstance(WorldContextObject);\<newline>''
           @ ''  return Action;\<newline>''
           @ ''}\<newline>''
           @ ''\<newline>''
           @ ''void '' @ asyncActionClass' @ ''::Activate()\<newline>''
           @ ''{\<newline>''
           @ ''  if (!CachedWorld.IsValid())\<newline>''
           @ ''  {\<newline>''
           @ ''    UE_LOG('' @ logCategory' @ '', Warning, TEXT("Async action had no valid world."));\<newline>''
           @ ''    OnComplete.Broadcast(1.f);\<newline>''
           @ ''    SetReadyToDestroy();\<newline>''
           @ ''    return;\<newline>''
           @ ''  }\<newline>''
           @ ''\<newline>''
           @ ''  CachedWorld->GetTimerManager().SetTimerForNextTick([this]()\<newline>''
           @ ''  {\<newline>''
           @ ''    AdvanceProgress();\<newline>''
           @ ''  });\<newline>''
           @ ''}\<newline>''
           @ ''\<newline>''
           @ ''void '' @ asyncActionClass' @ ''::AdvanceProgress()\<newline>''
           @ ''{\<newline>''
           @ ''  if (!CachedWorld.IsValid())\<newline>''
           @ ''  {\<newline>''
           @ ''    OnComplete.Broadcast(1.f);\<newline>''
           @ ''    SetReadyToDestroy();\<newline>''
           @ ''    return;\<newline>''
           @ ''  }\<newline>''
           @ ''\<newline>''
           @ ''  Elapsed += CachedWorld->GetDeltaSeconds();\<newline>''
           @ ''  const float Normalized = FMath::Clamp(Elapsed / Duration, 0.f, 1.f);\<newline>''
           @ ''  OnProgress.Broadcast(Normalized);\<newline>''
           @ ''\<newline>''
           @ ''  if (Normalized >= 1.f - KINDA_SMALL_NUMBER)\<newline>''
           @ ''  {\<newline>''
           @ ''    OnComplete.Broadcast(1.f);\<newline>''
           @ ''    SetReadyToDestroy();\<newline>''
           @ ''    return;\<newline>''
           @ ''  }\<newline>''
           @ ''\<newline>''
           @ ''  CachedWorld->GetTimerManager().SetTimerForNextTick([this]()\<newline>''
           @ ''  {\<newline>''
           @ ''    AdvanceProgress();\<newline>''
           @ ''  });\<newline>''
           @ ''}'')\<close>

section \<open>The workbench: state and edit operations\<close>

definition defaultMetadata :: PluginMetadata where
  "defaultMetadata =
     \<lparr>pluginName = ''NebulaToolkit'',
      friendlyName = ''Nebula Toolkit'',
      version = ''1.0.0'',
      description = ''Mission scripting utilities, smart triggers, and authoring helpers for cinematic gameplay sequences.'',
      category = ''Gameplay'',
      loadingPhase = PostEngineInit,
      supportedTargets = ''Win64, Mac, Linux'',
      enableEditorModule = True,
      enableBlueprintLibrary = True,
      enableAsyncActions = True,
      enableEditorMenu = True\<rparr>"

definition defaultFunctions :: "BlueprintFunction list" where
  "defaultFunctions =
     [\<lparr>fname = ''PulseMissionEvent'',
       freturnType = ''void'',
       fdescription = ''Broadcasts a mission pulse to subscribed listeners with a contextual payload for analytics or sequencing.'',
       fparameters =
         [\<lparr>pname = ''WorldContextObject'', ptype = ''UObject*''\<rparr>,
          \<lparr>pname = ''EventTag'', ptype = ''FName''\<rparr>,
          \<lparr>pname = ''Payload'', ptype = ''FGameplayTagContainer''\<rparr>]\<rparr>,
      \<lparr>fname = ''GetSequenceProgress'',
       freturnType = ''float'',
       fdescription = ''Returns a normalized 0-1 progress value for the active master sequence, clamped for safe UI usage.'',
       fparameters =
         [\<lparr>pname = ''WorldContextObject'', ptype = ''UObject*''\<rparr>,
          \<lparr>pname = ''SequenceLabel'', ptype = ''FName''\<rparr>]\<rparr>]"

text \<open>The six \<^verbatim>\<open>useState\<close> cells of the component.\<close>

record Workbench =
  metadata :: PluginMetadata
  blueprintFunctions :: "BlueprintFunction list"
  newFunctionName :: string
  newFunctionReturnType :: string
  newFunctionDescription :: string
  parameterDraft :: string

definition initialWorkbench :: Workbench where
  "initialWorkbench =
     \<lparr>metadata = defaultMetadata,
      blueprintFunctions = defaultFunctions,
      newFunctionName = [],
      newFunctionReturnType = ''void'',
      newFunctionDescription = [],
      parameterDraft = ''ContextActor:AActor*, Countdown:float''\<rparr>"

text \<open>
  \<open>handleMetadataChange\<close> is wired to the seven text and choice inputs, one per
  constructor; \<open>handleToggleFeature\<close> to the four check boxes.
\<close>

datatype MetadataEdit =
    PluginName string
  | FriendlyName string
  | Version string
  | Category string
  | Phase LoadingPhase
  | SupportedTargets string
  | Description string

fun handleMetadataChange :: "MetadataEdit \<Rightarrow> Workbench \<Rightarrow> Workbench" where
  "handleMetadataChange (PluginName v) s = s\<lparr>metadata := (metadata s)\<lparr>pluginName := v\<rparr>\<rparr>"
| "handleMetadataChange (FriendlyName v) s = s\<lparr>metadata := (metadata s)\<lparr>friendlyName := v\<rparr>\<rparr>"
| "handleMetadataChange (Version v) s = s\<lparr>metadata := (metadata s)\<lparr>version := v\<rparr>\<rparr>"
| "handleMetadataChange (Category v) s = s\<lparr>metadata := (metadata s)\<lparr>category := v\<rparr>\<rparr>"
| "handleMetadataChange (Phase v) s = s\<lparr>metadata := (metadata s)\<lparr>loadingPhase := v\<rparr>\<rparr>"
| "handleMetadataChange (SupportedTargets v) s = s\<lparr>metadata := (metadata s)\<lparr>supportedTargets := v\<rparr>\<rparr>"
| "handleMetadataChange (Description v) s = s\<lparr>metadata := (metadata s)\<lparr>description := v\<rparr>\<rparr>"

datatype Feature = BlueprintLibrary | EditorModule | AsyncActions | EditorMenu

fun handleToggleFeature :: "Feature \<Rightarrow> Workbench \<Rightarrow> Workbench" where
  "handleToggleFeature BlueprintLibrary s =
     s\<lparr>metadata := (metadata s)\<lparr>enableBlueprintLibrary := \<not> enableBlueprintLibrary (metadata s)\<rparr>\<rparr>"
| "handleToggleFeature EditorModule s =
     s\<lparr>metadata := (metadata s)\<lparr>enableEditorModule := \<not> enableEditorModule (metadata s)\<rparr>\<rparr>"
| "handleToggleFeature AsyncActions s =
     s\<lparr>metadata := (metadata s)\<lparr>enableAsyncActions := \<not> enableAsyncActions (metadata s)\<rparr>\<rparr>"
| "handleToggleFeature EditorMenu s =
     s\<lparr>metadata := (metadata s)\<lparr>enableEditorMenu := \<not> enableEditorMenu (metadata s)\<rparr>\<rparr>"

text \<open>
  The body of the \<^verbatim>\<open>forEach\<close> in \<open>handleAddBlueprintFunction\<close>:
  \<^verbatim>\<open>const [rawName, rawType] = entry.split(":").map((piece) => piece.trim())\<close> leaves
  a variable undefined where the array is too short, and undefined is falsy as the empty
  string is; the early \<^verbatim>\<open>return\<close> leaves the array \<^verbatim>\<open>parameters\<close> as it was.
\<close>

definition pushParameter :: "BlueprintParameter list \<Rightarrow> string \<Rightarrow> BlueprintParameter list" where
  "pushParameter parameters entry =
     (let pieces = map trim (split CHR '':'' entry);
          rawName = (case pieces of a # _ \<Rightarrow> Some a | _ \<Rightarrow> None);
          rawType = (case pieces of _ # b # _ \<Rightarrow> Some b | _ \<Rightarrow> None)
      in case (rawName, rawType) of
           (Some n, Some t) \<Rightarrow>
             if n = [] \<or> t = [] then parameters
             else parameters @ [\<lparr>pname = orElse (sanitiseIdentifier n) ''Param'', ptype = t\<rparr>]
         | _ \<Rightarrow> parameters)"

definition draftParameters :: "string \<Rightarrow> BlueprintParameter list" where
  "draftParameters draft =
     foldl pushParameter [] (filter (\<lambda>entry. entry \<noteq> []) (map trim (split CHR '','' draft)))"

definition handleAddBlueprintFunction :: "Workbench \<Rightarrow> Workbench" where
  "handleAddBlueprintFunction s =
     (if trim (newFunctionName s) = [] then s
      else s\<lparr>blueprintFunctions :=
                 blueprintFunctions s @
                 [\<lparr>fname = trim (newFunctionName s),
                   freturnType = orElse (trim (newFunctionReturnType s)) ''void'',
                   fdescription = orElse (trim (newFunctionDescription s)) ''Generated function.'',
                   fparameters = draftParameters (parameterDraft s)\<rparr>],
              newFunctionName := [],
              newFunctionReturnType := ''void'',
              newFunctionDescription := [],
              parameterDraft := ''ContextActor:AActor*''\<rparr>)"

text \<open>\<^verbatim>\<open>existing.filter((_, currentIndex) => currentIndex !== index)\<close>.\<close>

definition handleRemoveBlueprintFunction :: "nat \<Rightarrow> Workbench \<Rightarrow> Workbench" where
  "handleRemoveBlueprintFunction index s =
     s\<lparr>blueprintFunctions :=
         map snd (filter (\<lambda>(currentIndex, _). currentIndex \<noteq> index)
                    (enumerate 0 (blueprintFunctions s)))\<rparr>"

text \<open>
  The states of the workbench: the initial one, and what the handlers and the four
  inputs of the form, each wired to the setter of its cell, make of a state.
\<close>

inductive reachable :: "Workbench \<Rightarrow> bool" where
  initial: "reachable initialWorkbench"
| metadataChange: "reachable s \<Longrightarrow> reachable (handleMetadataChange edit s)"
| toggleFeature: "reachable s \<Longrightarrow> reachable (handleToggleFeature feature s)"
| addBlueprintFunction: "reachable s \<Longrightarrow> reachable (handleAddBlueprintFunction s)"
| removeBlueprintFunction: "reachable s \<Longrightarrow> reachable (handleRemoveBlueprintFunction index s)"
| setNewFunctionName: "reachable s \<Longrightarrow> reachable (s\<lparr>newFunctionName := v\<rparr>)"
| setNewFunctionReturnType: "reachable s \<Longrightarrow> reachable (s\<lparr>newFunctionReturnType := v\<rparr>)"
| setNewFunctionDescription: "reachable s \<Longrightarrow> reachable (s\<lparr>newFunctionDescription := v\<rparr>)"
| setParameterDraft: "reachable s \<Longrightarrow> reachable (s\<lparr>parameterDraft := v\<rparr>)"

section \<open>The rendered code blocks\<close>

text \<open>
  One render of the component computes seventeen values, each under \<^verbatim>\<open>useMemo\<close>: a
  hook keeps the dependency array and the value of the last computation, and computes
  again only when an entry of the array has changed. A hook is the pair of its
  dependencies and its value. The entries are compared with \<^verbatim>\<open>Object.is\<close>: strings
  and booleans by value, arrays by identity. \<open>same\<close> says that the entries that are
  arrays are the very objects of the last render; an array that is the same object is
  an equal array, but an equal array need not be the same object, so the test asks for
  both.
\<close>

definition useMemo :: "'d \<times> 'v \<Rightarrow> bool \<Rightarrow> 'd \<Rightarrow> 'v \<Rightarrow> 'd \<times> 'v" where
  "useMemo hook same deps fresh = (if same \<and> fst hook = deps then hook else (deps, fresh))"

record Hooks =
  hNormalized :: "(BlueprintFunction list \<times> string) \<times> NormalizedFunction list"
  hModuleName :: "string \<times> string"
  hModuleApiMacro :: "string \<times> string"
  hLogCategory :: "string \<times> string"
  hModuleClass :: "string \<times> string"
  hBlueprintClass :: "string \<times> string"
  hAsyncActionClass :: "string \<times> string"
  hDescriptorJson ::
    "(string \<times> string \<times> bool \<times> bool \<times> string \<times> LoadingPhase \<times> string \<times> string \<times> string) \<times> string"
  hModuleHeader :: "(string \<times> bool \<times> string) \<times> string"
  hModuleSource :: "(string \<times> bool \<times> string \<times> string) \<times> string"
  hBuildScript :: "(bool \<times> bool \<times> bool \<times> string) \<times> string"
  hBlueprintHeader :: "(string \<times> bool \<times> string \<times> string \<times> NormalizedFunction list) \<times> string"
  hBlueprintSource :: "(string \<times> string \<times> bool \<times> string \<times> NormalizedFunction list) \<times> string"
  hEditorHeader :: "(bool \<times> bool \<times> string) \<times> string"
  hEditorSource :: "(bool \<times> bool \<times> string \<times> string \<times> string \<times> string) \<times> string"
  hAsyncHeader :: "(string \<times> bool \<times> string \<times> string) \<times> string"
  hAsyncSource :: "(string \<times> string \<times> bool \<times> string) \<times> string"

text \<open>
  A hook on a render: there is nothing to keep on the first one. \<open>kept\<close> says whether
  the hook keeps its value, and with it the object the value is.
\<close>

definition memo :: "('d \<times> 'v) option \<Rightarrow> bool \<Rightarrow> 'd \<Rightarrow> 'v \<Rightarrow> 'd \<times> 'v" where
  "memo hook same deps fresh =
     (case hook of None \<Rightarrow> (deps, fresh) | Some h \<Rightarrow> useMemo h same deps fresh)"

definition kept :: "('d \<times> 'v) option \<Rightarrow> bool \<Rightarrow> 'd \<Rightarrow> bool" where
  "kept hook same deps = (case hook of None \<Rightarrow> False | Some h \<Rightarrow> same \<and> fst h = deps)"

text \<open>
  The body of the component down to its \<^verbatim>\<open>return\<close>, in the order of the source. Each
  line gives a hook the dependency array the source lists and the value its function
  computes from the variables in scope, which are the state and the values of the hooks
  above it. \<open>hooks\<close> is \<open>None\<close> on the first render. \<open>sameFunctions\<close> says that
  the list of functions is the array of the last render; the array of normalized
  functions is the one of the last render exactly when its hook kept it.
\<close>

definition render ::
  "Hooks option \<Rightarrow> bool \<Rightarrow> PluginMetadata \<Rightarrow> BlueprintFunction list \<Rightarrow> Hooks" where
  "render hooks sameFunctions md fns =
     (let normalized = memo (map_option hNormalized hooks) sameFunctions (fns, friendlyName md)
            (normalizedBlueprintFunctions (friendlyName md) fns);
          sameNormalized = kept (map_option hNormalized hooks) sameFunctions (fns, friendlyName md);
          moduleName' = memo (map_option hModuleName hooks) True (pluginName md) (moduleName md);
          moduleApiMacro' = memo (map_option hModuleApiMacro hooks) True (snd moduleName')
            (moduleApiMacro (snd moduleName'));
          logCategory' = memo (map_option hLogCategory hooks) True (snd moduleName')
            (logCategory (snd moduleName'));
          moduleClass' = memo (map_option hModuleClass hooks) True (snd moduleName')
            (moduleClass (snd moduleName'));
          blueprintClass' = memo (map_option hBlueprintClass hooks) True (snd moduleName')
            (blueprintClass (snd moduleName'));
          asyncActionClass' = memo (map_option hAsyncActionClass hooks) True (snd moduleName')
            (asyncActionClass (snd moduleName'));
          descriptorJson' = memo (map_option hDescriptorJson hooks) True
            (category md, description md, enableAsyncActions md, enableEditorModule md,
             friendlyName md, loadingPhase md, supportedTargets md, version md, snd moduleName')
            (descriptorJson md (snd moduleName'));
          moduleHeader' = memo (map_option hModuleHeader hooks) True
            (snd logCategory', enableEditorModule md, snd moduleClass')
            (moduleHeader md (snd logCategory') (snd moduleClass'));
          moduleSource' = memo (map_option hModuleSource hooks) True
            (snd logCategory', enableEditorModule md, snd moduleClass', snd moduleName')
            (moduleSource md (snd logCategory') (snd moduleClass') (snd moduleName'));
          buildScript' = memo (map_option hBuildScript hooks) True
            (enableAsyncActions md, enableBlueprintLibrary md, enableEditorModule md, snd moduleName')
            (buildScript md (snd moduleName'));
          blueprintHeader' = memo (map_option hBlueprintHeader hooks) sameNormalized
            (snd blueprintClass', enableBlueprintLibrary md, snd moduleApiMacro', snd moduleName',
             snd normalized)
            (blueprintHeader md (snd blueprintClass') (snd moduleApiMacro') (snd moduleName')
               (snd normalized));
          blueprintSource' = memo (map_option hBlueprintSource hooks) sameNormalized
            (snd blueprintClass', snd logCategory', enableBlueprintLibrary md, snd moduleName',
             snd normalized)
            (blueprintSource md (snd blueprintClass') (snd logCategory') (snd moduleName')
               (snd normalized));
          editorHeader' = memo (map_option hEditorHeader hooks) True
            (enableEditorMenu md, enableEditorModule md, snd moduleClass')
            (editorHeader md (snd moduleClass'));
          editorSource' = memo (map_option hEditorSource hooks) True
            (enableEditorMenu md, enableEditorModule md, friendlyName md, snd moduleClass',
             snd moduleName', snd logCategory')
            (editorSource md (snd moduleClass') (snd moduleName') (snd logCategory'));
          asyncHeader' = memo (map_option hAsyncHeader hooks) True
            (snd asyncActionClass', enableAsyncActions md, snd moduleApiMacro', snd moduleName')
            (asyncHeader md (snd asyncActionClass') (snd moduleApiMacro') (snd moduleName'));
          asyncSource' = memo (map_option hAsyncSource hooks) True
            (snd asyncActionClass', snd logCategory', enableAsyncActions md, snd moduleName')
            (asyncSource md (snd asyncActionClass') (snd logCategory') (snd moduleName'))
      in \<lparr>hNormalized = normalized,
          hModuleName = moduleName',
          hModuleApiMacro = moduleApiMacro',
          hLogCategory = logCategory',
          hModuleClass = moduleClass',
          hBlueprintClass = blueprintClass',
          hAsyncActionClass = asyncActionClass',
          hDescriptorJson = descriptorJson',
          hModuleHeader = moduleHeader',
          hModuleSource = moduleSource',
          hBuildScript = buildScript',
          hBlueprintHeader = blueprintHeader',
          hBlueprintSource = blueprintSource',
          hEditorHeader = editorHeader',
          hEditorSource = editorSource',
          hAsyncHeader = asyncHeader',
          hAsyncSource = asyncSource'\<rparr>)"

text \<open>The props of one \<^verbatim>\<open>CodeBlock\<close>, and the right column of the page.\<close>

record CodeBlock =
  title :: string
  filename :: string
  language :: string
  code :: string

definition codeBlocks :: "PluginMetadata \<Rightarrow> Hooks \<Rightarrow> CodeBlock list" where
  "codeBlocks md h =
     (let moduleName' = snd (hModuleName h);
          blueprintHeader' = snd (hBlueprintHeader h);
          asyncHeader' = snd (hAsyncHeader h);
          editorHeader' = snd (hEditorHeader h)
      in [\<lparr>title = ''.uplugin descriptor'', filename = pluginName md @ ''.uplugin'',
           language = ''json'', code = snd (hDescriptorJson h)\<rparr>,
          \<lparr>title = ''Runtime module header'',
           filename = ''Source/'' @ moduleName' @ ''/'' @ moduleName' @ ''.h'',
           language = ''cpp'', code = snd (hModuleHeader h)\<rparr>,
          \<lparr>title = ''Runtime module source'',
           filename = ''Source/'' @ moduleName' @ ''/'' @ moduleName' @ ''.cpp'',
           language = ''cpp'', code = snd (hModuleSource h)\<rparr>,
          \<lparr>title = ''Build.cs'',
           filename = ''Source/'' @ moduleName' @ ''/'' @ moduleName' @ ''.Build.cs'',
           language = ''csharp'', code = snd (hBuildScript h)\<rparr>]
         @ (if enableBlueprintLibrary md \<and> blueprintHeader' \<noteq> []
            then [\<lparr>title = ''Blueprint library header'',
                   filename = ''Source/'' @ moduleName' @ ''/Public/'' @ moduleName' @ ''BlueprintLibrary.h'',
                   language = ''cpp'', code = blueprintHeader'\<rparr>,
                  \<lparr>title = ''Blueprint library source'',
                   filename = ''Source/'' @ moduleName' @ ''/Private/'' @ moduleName' @ ''BlueprintLibrary.cpp'',
                   language = ''cpp'', code = snd (hBlueprintSource h)\<rparr>]
            else [])
         @ (if enableAsyncActions md \<and> asyncHeader' \<noteq> []
            then [\<lparr>title = ''Async action header'',
                   filename = ''Source/'' @ moduleName' @ ''/Public/'' @ moduleName' @ ''AsyncAction.h'',
                   language = ''cpp'', code = asyncHeader'\<rparr>,
                  \<lparr>title = ''Async action source'',
                   filename = ''Source/'' @ moduleName' @ ''/Private/'' @ moduleName' @ ''AsyncAction.cpp'',
                   language = ''cpp'', code = snd (hAsyncSource h)\<rparr>]
            else [])
         @ (if enableEditorModule md \<and> editorHeader' \<noteq> []
            then [\<lparr>title = ''Editor module header'',
                   filename = ''Source/'' @ moduleName' @ ''Editor/'' @ moduleName' @ ''Editor.h'',
                   language = ''cpp'', code = editorHeader'\<rparr>,
                  \<lparr>title = ''Editor module source'',
                   filename = ''Source/'' @ moduleName' @ ''Editor/'' @ moduleName' @ ''Editor.cpp'',
                   language = ''cpp'', code = snd (hEditorSource h)\<rparr>]
            else []))"

text \<open>
  The code blocks on the page after a run of the component: it is mounted with the
  first state of the run and rendered again at each later one. A step of the run is the
  state rendered and whether its list of functions is the array of the step before.
\<close>

fun rendered ::
  "Hooks option \<Rightarrow> (bool \<times> PluginMetadata \<times> BlueprintFunction list) list \<Rightarrow> Hooks option" where
  "rendered hooks [] = hooks"
| "rendered hooks ((same, md, fns) # states) = rendered (Some (render hooks same md fns)) states"

definition shown :: "(bool \<times> PluginMetadata \<times> BlueprintFunction list) list \<Rightarrow> CodeBlock list" where
  "shown states =
     (case (rendered None states, states) of
        (Some h, _ # _) \<Rightarrow> codeBlocks (fst (snd (last states))) h
      | _ \<Rightarrow> [])"

text \<open>The code blocks of a first render: every value is computed from the state alone.\<close>

definition artifacts :: "PluginMetadata \<Rightarrow> BlueprintFunction list \<Rightarrow> CodeBlock list" where
  "artifacts md fns = codeBlocks md (render None False md fns)"

section \<open>Vocabulary of the properties\<close>

text \<open>
  The parameter draft as the specification words it: entries separated by commas, each a
  name and a type separated by a colon; an entry is well formed when it has both.
\<close>

definition draftEntries :: "string \<Rightarrow> string list" where
  "draftEntries draft = filter (\<lambda>entry. entry \<noteq> []) (map trim (split CHR '','' draft))"

definition entryName :: "string \<Rightarrow> string" where
  "entryName entry = (case map trim (split CHR '':'' entry) of a # _ \<Rightarrow> a | [] \<Rightarrow> [])"

definition entryType :: "string \<Rightarrow> string" where
  "entryType entry = (case map trim (split CHR '':'' entry) of _ # b # _ \<Rightarrow> b | _ \<Rightarrow> [])"

definition wellFormed :: "string \<Rightarrow> bool" where
  "wellFormed entry \<longleftrightarrow> entryName entry \<noteq> [] \<and> entryType entry \<noteq> []"

definition entryParameter :: "string \<Rightarrow> BlueprintParameter" where
  "entryParameter entry =
     \<lparr>pname = orElse (sanitiseIdentifier (entryName entry)) ''Param'', ptype = entryType entry\<rparr>"

text \<open>What the first render leaves in the hooks: every value computed from the state.\<close>

definition firstRender :: "PluginMetadata \<Rightarrow> BlueprintFunction list \<Rightarrow> Hooks" where
  "firstRender md fns =
     \<lparr>hNormalized = ((fns, friendlyName md), normalizedBlueprintFunctions (friendlyName md) fns),
      hModuleName = (pluginName md, moduleName md),
      hModuleApiMacro = (moduleName md, moduleApiMacro (moduleName md)),
      hLogCategory = (moduleName md, logCategory (moduleName md)),
      hModuleClass = (moduleName md, moduleClass (moduleName md)),
      hBlueprintClass = (moduleName md, blueprintClass (moduleName md)),
      hAsyncActionClass = (moduleName md, asyncActionClass (moduleName md)),
      hDescriptorJson =
        ((category md, description md, enableAsyncActions md, enableEditorModule md,
          friendlyName md, loadingPhase md, supportedTargets md, version md, moduleName md),
         descriptorJson md (moduleName md)),
      hModuleHeader =
        ((logCategory (moduleName md), enableEditorModule md, moduleClass (moduleName md)),
         moduleHeader md (logCategory (moduleName md)) (moduleClass (moduleName md))),
      hModuleSource =
        ((logCategory (moduleName md), enableEditorModule md, moduleClass (moduleName md),
          moduleName md),
         moduleSource md (logCategory (moduleName md)) (moduleClass (moduleName md)) (moduleName md)),
      hBuildScript =
        ((enableAsyncActions md, enableBlueprintLibrary md, enableEditorModule md, moduleName md),
         buildScript md (moduleName md)),
      hBlueprintHeader =
        ((blueprintClass (moduleName md), enableBlueprintLibrary md,
          moduleApiMacro (moduleName md), moduleName md,
          normalizedBlueprintFunctions (friendlyName md) fns),
         blueprintHeader md (blueprintClass (moduleName md)) (moduleApiMacro (moduleName md))
           (moduleName md) (normalizedBlueprintFunctions (friendlyName md) fns)),
      hBlueprintSource =
        ((blueprintClass (moduleName md), logCategory (moduleName md), enableBlueprintLibrary md,
          moduleName md, normalizedBlueprintFunctions (friendlyName md) fns),
         blueprintSource md (blueprintClass (moduleName md)) (logCategory (moduleName md))
           (moduleName md) (normalizedBlueprintFunctions (friendlyName md) fns)),
      hEditorHeader =
        ((enableEditorMenu md, enableEditorModule md, moduleClass (moduleName md)),
         editorHeader md (moduleClass (moduleName md))),
      hEditorSource =
        ((enableEditorMenu md, enableEditorModule md, friendlyName md, moduleClass (moduleName md),
          moduleName md, logCategory (moduleName md)),
         editorSource md (moduleClass (moduleName md)) (moduleName md) (logCategory (moduleName md))),
      hAsyncHeader =
        ((asyncActionClass (moduleName md), enableAsyncActions md, moduleApiMacro (moduleName md),
          moduleName md),
         asyncHeader md (asyncActionClass (moduleName md)) (moduleApiMacro (moduleName md))
           (moduleName md)),
      hAsyncSource =
        ((asyncActionClass (moduleName md), logCategory (moduleName md), enableAsyncActions md,
          moduleName md),
         asyncSource md (asyncActionClass (moduleName md)) (logCategory (moduleName md))
           (moduleName md))\<rparr>"


text \<open>
  The parameter names of a list of functions are stored names when the sanitiser leaves
  each of them as it is.
\<close>

definition storedNames :: "BlueprintFunction list \<Rightarrow> bool" where
  "storedNames fns \<longleftrightarrow>
     list_all (\<lambda>fn. list_all (\<lambda>p. sanitiseIdentifier (pname p) = pname p) (fparameters fn)) fns"

section \<open>Properties of the rendered code blocks\<close>

text \<open>
  Each function under \<^verbatim>\<open>useMemo\<close> reads the metadata through the fields of its
  dependency array only: where those agree, two metadata records give the same text.
\<close>

lemma memo_first: "memo None same deps fresh = (deps, fresh)"
  by (simp add: memo_def)

lemma memo_again:
  "(d0 = deps \<Longrightarrow> v0 = fresh) \<Longrightarrow> memo (Some (d0, v0)) same deps fresh = (deps, fresh)"
  by (auto simp: memo_def useMemo_def)

lemma render_first: "render None same md fns = firstRender md fns"
  by (simp add: render_def firstRender_def memo_first Let_def)

lemma moduleName_deps: "pluginName md0 = pluginName md \<Longrightarrow> moduleName md0 = moduleName md"
  by (simp add: moduleName_def)

lemma descriptorJson_deps:
  "category md0 = category md \<Longrightarrow> description md0 = description md \<Longrightarrow>
   enableAsyncActions md0 = enableAsyncActions md \<Longrightarrow>
   enableEditorModule md0 = enableEditorModule md \<Longrightarrow>
   friendlyName md0 = friendlyName md \<Longrightarrow> loadingPhase md0 = loadingPhase md \<Longrightarrow>
   supportedTargets md0 = supportedTargets md \<Longrightarrow> version md0 = version md \<Longrightarrow>
   descriptorJson md0 mn = descriptorJson md mn"
  by (simp add: descriptorJson_def descriptorObject_def descriptorModules_def)

lemma moduleHeader_deps:
  "enableEditorModule md0 = enableEditorModule md \<Longrightarrow> moduleHeader md0 lc mc = moduleHeader md lc mc"
  by (simp add: moduleHeader_def)

lemma moduleSource_deps:
  "enableEditorModule md0 = enableEditorModule md \<Longrightarrow>
   moduleSource md0 lc mc mn = moduleSource md lc mc mn"
  by (simp add: moduleSource_def)

lemma buildScript_deps:
  "enableAsyncActions md0 = enableAsyncActions md \<Longrightarrow>
   enableBlueprintLibrary md0 = enableBlueprintLibrary md \<Longrightarrow>
   enableEditorModule md0 = enableEditorModule md \<Longrightarrow>
   buildScript md0 mn = buildScript md mn"
  by (simp add: buildScript_def publicDeps_def privateDeps_def)

lemma blueprintHeader_deps:
  "enableBlueprintLibrary md0 = enableBlueprintLibrary md \<Longrightarrow>
   blueprintHeader md0 bc am mn ns = blueprintHeader md bc am mn ns"
  by (simp add: blueprintHeader_def)

lemma blueprintSource_deps:
  "enableBlueprintLibrary md0 = enableBlueprintLibrary md \<Longrightarrow>
   blueprintSource md0 bc lc mn ns = blueprintSource md bc lc mn ns"
  by (simp add: blueprintSource_def)

lemma editorHeader_deps:
  "enableEditorMenu md0 = enableEditorMenu md \<Longrightarrow>
   enableEditorModule md0 = enableEditorModule md \<Longrightarrow>
   editorHeader md0 mc = editorHeader md mc"
  by (simp add: editorHeader_def)

lemma editorSource_deps:
  "enableEditorMenu md0 = enableEditorMenu md \<Longrightarrow>
   enableEditorModule md0 = enableEditorModule md \<Longrightarrow>
   friendlyName md0 = friendlyName md \<Longrightarrow>
   editorSource md0 mc mn lc = editorSource md mc mn lc"
  by (simp add: editorSource_def)

lemma asyncHeader_deps:
  "enableAsyncActions md0 = enableAsyncActions md \<Longrightarrow>
   asyncHeader md0 ac am mn = asyncHeader md ac am mn"
  by (simp add: asyncHeader_def)

lemma asyncSource_deps:
  "enableAsyncActions md0 = enableAsyncActions md \<Longrightarrow>
   asyncSource md0 ac lc mn = asyncSource md ac lc mn"
  by (simp add: asyncSource_def)


text \<open>
  A render over the hooks of a first render gives the hooks of a first render of the new
  state: where a hook keeps its value, the value is the one it would compute.
\<close>

lemma render_again: "render (Some (firstRender md0 fns0)) same md fns = firstRender md fns"
proof -
  let ?h = "firstRender md0 fns0"
  let ?mn = "moduleName md"
  let ?ns = "normalizedBlueprintFunctions (friendlyName md) fns"
  let ?k = "kept (Some (hNormalized ?h)) same (fns, friendlyName md)"
  have c1: "memo (Some (hNormalized ?h)) same (fns, friendlyName md) ?ns = ((fns, friendlyName md), ?ns)"
    unfolding firstRender_def by (simp, rule memo_again) auto
  have c2: "memo (Some (hModuleName ?h)) True (pluginName md) ?mn = (pluginName md, ?mn)"
    unfolding firstRender_def by (simp, rule memo_again) (auto intro: moduleName_deps)
  have c3: "memo (Some (hModuleApiMacro ?h)) True ?mn (moduleApiMacro ?mn) = (?mn, moduleApiMacro ?mn)"
    unfolding firstRender_def by (simp, rule memo_again) auto
  have c4: "memo (Some (hLogCategory ?h)) True ?mn (logCategory ?mn) = (?mn, logCategory ?mn)"
    unfolding firstRender_def by (simp, rule memo_again) auto
  have c5: "memo (Some (hModuleClass ?h)) True ?mn (moduleClass ?mn) = (?mn, moduleClass ?mn)"
    unfolding firstRender_def by (simp, rule memo_again) auto
  have c6: "memo (Some (hBlueprintClass ?h)) True ?mn (blueprintClass ?mn) = (?mn, blueprintClass ?mn)"
    unfolding firstRender_def by (simp, rule memo_again) auto
  have c7: "memo (Some (hAsyncActionClass ?h)) True ?mn (asyncActionClass ?mn) = (?mn, asyncActionClass ?mn)"
    unfolding firstRender_def by (simp, rule memo_again) auto
  have c8: "memo (Some (hDescriptorJson ?h)) True
      (category md, description md, enableAsyncActions md, enableEditorModule md,
       friendlyName md, loadingPhase md, supportedTargets md, version md, ?mn)
      (descriptorJson md ?mn)
    = ((category md, description md, enableAsyncActions md, enableEditorModule md,
        friendlyName md, loadingPhase md, supportedTargets md, version md, ?mn),
       descriptorJson md ?mn)"
    unfolding firstRender_def by (simp, rule memo_again) (auto intro: descriptorJson_deps)
  have c9: "memo (Some (hModuleHeader ?h)) True
      (logCategory ?mn, enableEditorModule md, moduleClass ?mn)
      (moduleHeader md (logCategory ?mn) (moduleClass ?mn))
    = ((logCategory ?mn, enableEditorModule md, moduleClass ?mn),
       moduleHeader md (logCategory ?mn) (moduleClass ?mn))"
    unfolding firstRender_def by (simp, rule memo_again) (auto intro: moduleHeader_deps)
  have c10: "memo (Some (hModuleSource ?h)) True
      (logCategory ?mn, enableEditorModule md, moduleClass ?mn, ?mn)
      (moduleSource md (logCategory ?mn) (moduleClass ?mn) ?mn)
    = ((logCategory ?mn, enableEditorModule md, moduleClass ?mn, ?mn),
       moduleSource md (logCategory ?mn) (moduleClass ?mn) ?mn)"
    unfolding firstRender_def by (simp, rule memo_again) (auto intro: moduleSource_deps)
  have c11: "memo (Some (hBuildScript ?h)) True
      (enableAsyncActions md, enableBlueprintLibrary md, enableEditorModule md, ?mn)
      (buildScript md ?mn)
    = ((enableAsyncActions md, enableBlueprintLibrary md, enableEditorModule md, ?mn),
       buildScript md ?mn)"
    unfolding firstRender_def by (simp, rule memo_again) (auto intro: buildScript_deps)
  have c12: "memo (Some (hBlueprintHeader ?h)) ?k
      (blueprintClass ?mn, enableBlueprintLibrary md, moduleApiMacro ?mn, ?mn, ?ns)
      (blueprintHeader md (blueprintClass ?mn) (moduleApiMacro ?mn) ?mn ?ns)
    = ((blueprintClass ?mn, enableBlueprintLibrary md, moduleApiMacro ?mn, ?mn, ?ns),
       blueprintHeader md (blueprintClass ?mn) (moduleApiMacro ?mn) ?mn ?ns)"
    unfolding firstRender_def by (simp, rule memo_again) (auto intro: blueprintHeader_deps)
  have c13: "memo (Some (hBlueprintSource ?h)) ?k
      (blueprintClass ?mn, logCategory ?mn, enableBlueprintLibrary md, ?mn, ?ns)
      (blueprintSource md (blueprintClass ?mn) (logCategory ?mn) ?mn ?ns)
    = ((blueprintClass ?mn, logCategory ?mn, enableBlueprintLibrary md, ?mn, ?ns),
       blueprintSource md (blueprintClass ?mn) (logCategory ?mn) ?mn ?ns)"
    unfolding firstRender_def by (simp, rule memo_again) (auto intro: blueprintSource_deps)
  have c14: "memo (Some (hEditorHeader ?h)) True
      (enableEditorMenu md, enableEditorModule md, moduleClass ?mn)
      (editorHeader md (moduleClass ?mn))
    = ((enableEditorMenu md, enableEditorModule md, moduleClass ?mn),
       editorHeader md (moduleClass ?mn))"
    unfolding firstRender_def by (simp, rule memo_again) (auto intro: editorHeader_deps)
  have c15: "memo (Some (hEditorSource ?h)) True
      (enableEditorMenu md, enableEditorModule md, friendlyName md, moduleClass ?mn, ?mn,
       logCategory ?mn)
      (editorSource md (moduleClass ?mn) ?mn (logCategory ?mn))
    = ((enableEditorMenu md, enableEditorModule md, friendlyName md, moduleClass ?mn, ?mn,
        logCategory ?mn),
       editorSource md (moduleClass ?mn) ?mn (logCategory ?mn))"
    unfolding firstRender_def by (simp, rule memo_again) (auto intro: editorSource_deps)
  have c16: "memo (Some (hAsyncHeader ?h)) True
      (asyncActionClass ?mn, enableAsyncActions md, moduleApiMacro ?mn, ?mn)
      (asyncHeader md (asyncActionClass ?mn) (moduleApiMacro ?mn) ?mn)
    = ((asyncActionClass ?mn, enableAsyncActions md, moduleApiMacro ?mn, ?mn),
       asyncHeader md (asyncActionClass ?mn) (moduleApiMacro ?mn) ?mn)"
    unfolding firstRender_def by (simp, rule memo_again) (auto intro: asyncHeader_deps)
  have c17: "memo (Some (hAsyncSource ?h)) True
      (asyncActionClass ?mn, logCategory ?mn, enableAsyncActions md, ?mn)
      (asyncSource md (asyncActionClass ?mn) (logCategory ?mn) ?mn)
    = ((asyncActionClass ?mn, logCategory ?mn, enableAsyncActions md, ?mn),
       asyncSource md (asyncActionClass ?mn) (logCategory ?mn) ?mn)"
    unfolding firstRender_def by (simp, rule memo_again) (auto intro: asyncSource_deps)
  show ?thesis
    unfolding render_def Let_def option.map snd_conv
      c1 c2 c3 c4 c5 c6 c7 c8 c9 c10 c11 c12 c13 c14 c15 c16 c17
    by (simp only: firstRender_def)
qed


text \<open>
  So the hooks after any run of renders are those of a first render of the last state,
  and the code blocks on the page are a function of that state alone.
\<close>

lemma rendered_first:
  "rendered (Some (firstRender md0 fns0)) states =
     Some (firstRender (fst (snd (last ((same0, md0, fns0) # states))))
                       (snd (snd (last ((same0, md0, fns0) # states)))))"
proof (induction states arbitrary: same0 md0 fns0)
  case Nil
  show ?case by simp
next
  case (Cons st states)
  obtain same md fns where st: "st = (same, md, fns)" by (cases st)
  show ?case unfolding st using Cons.IH[of md fns same] by (simp add: render_again)
qed

lemma rendered_run:
  "rendered None (history @ [(same, md, fns)]) = Some (firstRender md fns)"
proof (cases history)
  case Nil
  then show ?thesis by (simp add: render_first)
next
  case (Cons st rest)
  obtain same0 md0 fns0 where st: "st = (same0, md0, fns0)" by (cases st)
  show ?thesis
    unfolding Cons st using rendered_first[of md0 fns0 "rest @ [(same, md, fns)]" same0]
    by (simp add: render_first)
qed

lemma shown_hooks:
  "states \<noteq> [] \<Longrightarrow> rendered None states = Some h \<Longrightarrow>
   shown states = codeBlocks (fst (snd (last states))) h"
  by (cases states) (simp_all add: shown_def)

lemma shown_artifacts: "shown (history @ [(same, md, fns)]) = artifacts md fns"
proof -
  have "shown (history @ [(same, md, fns)]) =
        codeBlocks (fst (snd (last (history @ [(same, md, fns)])))) (firstRender md fns)"
    by (rule shown_hooks) (simp_all add: rendered_run)
  then show ?thesis by (simp add: artifacts_def render_first)
qed

text \<open>
  C2. Every generator is a function of the metadata, the derived identifiers and the
  normalized functions it is given, and the code blocks the component shows depend on
  nothing else: two runs of the component that end in identical metadata and identical
  function lists show identical code blocks, text for text, whatever was rendered
  before and whichever arrays were kept; both show what a first render of that state
  computes. (The values kept by \<^verbatim>\<open>useMemo\<close> are where a render could have depended
  on the past.)
\<close>

theorem regeneration_deterministic:
  "md1 = md2 \<Longrightarrow> fns1 = fns2 \<Longrightarrow>
     shown (history1 @ [(same1, md1, fns1)]) = shown (history2 @ [(same2, md2, fns2)]) \<and>
     shown (history1 @ [(same1, md1, fns1)]) = artifacts md1 fns1"
  by (simp add: shown_artifacts)

theorem regeneration_deterministic_witness:
  "shown ([] @ [(False, defaultMetadata, defaultFunctions)]) =
   shown ([(False, defaultMetadata\<lparr>enableAsyncActions := False, pluginName := ''Other''\<rparr>, []),
           (False, defaultMetadata\<lparr>enableAsyncActions := False\<rparr>, defaultFunctions)]
          @ [(True, defaultMetadata, defaultFunctions)])"
  using regeneration_deterministic[OF refl refl,
    where ?history1.0 = "[]" and ?same1.0 = False and ?md1.0 = defaultMetadata
      and ?fns1.0 = defaultFunctions and ?same2.0 = True
      and ?history2.0 =
        "[(False, defaultMetadata\<lparr>enableAsyncActions := False, pluginName := ''Other''\<rparr>, []),
          (False, defaultMetadata\<lparr>enableAsyncActions := False\<rparr>, defaultFunctions)]"]
  by simp

section \<open>Properties of the identifier utilities\<close>

lemma digit_not_start: "isDigit c \<Longrightarrow> \<not> isIdentStart c"
  unfolding isDigit_def isIdentStart_def isUpper_def isLower_def
  by (auto simp: less_eq_char_def)

lemma upperChar_not_lower: "\<not> isLower (upperChar c)"
  unfolding upperChar_def isLower_def
  by (auto simp: less_eq_char_def)

lemma upperChar_idem: "upperChar (upperChar c) = upperChar c"
  using upperChar_not_lower[of c] by (simp add: upperChar_def)

lemma upperChar_alnum: "isAlnum c \<Longrightarrow> isAlnum (upperChar c)"
  unfolding upperChar_def isAlnum_def isLower_def isUpper_def isDigit_def
  by (auto simp: less_eq_char_def)

lemma space_not_alnum: "\<not> isAlnum CHR '' ''"
  by (simp add: isAlnum_def isLower_def isUpper_def isDigit_def less_eq_char_def)

lemma prefixLeadingDigit_word:
  "\<forall>c\<in>set s. isWord c \<Longrightarrow> \<forall>c\<in>set (prefixLeadingDigit s). isWord c"
  by (cases s) (auto simp: prefixLeadingDigit_def isWord_def)

lemma sanitise_word: "\<forall>c\<in>set (sanitiseIdentifier v). isWord c"
  unfolding sanitiseIdentifier_def
  by (rule prefixLeadingDigit_word) (auto dest: set_dropWhileD)

lemma sanitise_start:
  assumes ne: "sanitiseIdentifier v \<noteq> []"
  shows "isIdentStart (hd (sanitiseIdentifier v))"
proof -
  let ?t = "dropWhile (\<lambda>c. \<not> isIdentStart c) (filter isWord v)"
  show ?thesis
  proof (cases ?t)
    case Nil
    with ne show ?thesis by (simp add: sanitiseIdentifier_def prefixLeadingDigit_def)
  next
    case (Cons c cs)
    then have "isIdentStart c"
      using hd_dropWhile[of "\<lambda>c. \<not> isIdentStart c" "filter isWord v"] by auto
    with Cons show ?thesis
      by (auto simp: sanitiseIdentifier_def prefixLeadingDigit_def isIdentStart_def)
  qed
qed

text \<open>
  The third replacement of \<open>sanitiseIdentifier\<close> never fires: what the second one
  leaves starts with a letter or an underscore.
\<close>

lemma sanitise_no_prefix:
  "sanitiseIdentifier v = dropWhile (\<lambda>c. \<not> isIdentStart c) (filter isWord v)"
proof (cases "dropWhile (\<lambda>c. \<not> isIdentStart c) (filter isWord v)")
  case Nil
  show ?thesis unfolding sanitiseIdentifier_def prefixLeadingDigit_def Nil by simp
next
  case (Cons c cs)
  then have "isIdentStart c"
    using hd_dropWhile[of "\<lambda>c. \<not> isIdentStart c" "filter isWord v"] by auto
  then have "\<not> isDigit c" using digit_not_start by blast
  then show ?thesis unfolding sanitiseIdentifier_def prefixLeadingDigit_def Cons by simp
qed

text \<open>
  C6. For every input string, the output of \<open>sanitiseIdentifier\<close> holds only characters
  of \<^verbatim>\<open>[A-Za-z0-9_]\<close>, and when it is not empty its first character is a letter or an
  underscore: the output is empty or a bare identifier of the C family.
\<close>

theorem sanitiseIdentifier_valid:
  "(\<forall>c\<in>set (sanitiseIdentifier v). isWord c) \<and>
   (sanitiseIdentifier v \<noteq> [] \<longrightarrow> isIdentStart (hd (sanitiseIdentifier v)))"
  using sanitise_word sanitise_start by blast

theorem sanitiseIdentifier_valid_witness:
  "sanitiseIdentifier ''9 lives!'' = ''lives'' \<and> list_all isWord ''lives'' \<and> isIdentStart CHR ''l''"
  using sanitiseIdentifier_valid[of "''9 lives!''"]
  by (simp add: sanitiseIdentifier_def prefixLeadingDigit_def isWord_def isIdentStart_def
      isUpper_def isLower_def isDigit_def less_eq_char_def)

lemma replace_alnum_id: "\<forall>c\<in>set x. isAlnum c \<Longrightarrow> replaceNonAlnumRuns x = x"
  by (induction x) auto

lemma split_absent: "sep \<notin> set x \<Longrightarrow> split sep x = [x]"
  by (induction x) auto

lemma toPascalCase_alnum_input:
  assumes "\<forall>c\<in>set x. isAlnum c"
  shows "toPascalCase x = capitalise x"
proof -
  have "CHR '' '' \<notin> set x" using assms space_not_alnum by auto
  then show ?thesis
    using assms
    by (simp add: toPascalCase_def replace_alnum_id split_absent capitalise_def toUpperCase_def)
qed

lemma capitalise_alnum: "\<forall>c\<in>set x. isAlnum c \<Longrightarrow> \<forall>c\<in>set (capitalise x). isAlnum c"
  by (cases x) (auto simp: capitalise_def toUpperCase_def upperChar_alnum)

lemma capitalise_idem: "capitalise (capitalise x) = capitalise x"
  by (cases x) (auto simp: capitalise_def toUpperCase_def upperChar_idem)

text \<open>
  C7. For every input \<open>x\<close> made of characters of the output alphabet only (letters and
  digits), \<open>toPascalCase\<close> is idempotent:
  \<open>toPascalCase (toPascalCase x) = toPascalCase x\<close>.
\<close>

theorem toPascalCase_idempotent:
  "\<forall>c\<in>set x. isAlnum c \<Longrightarrow> toPascalCase (toPascalCase x) = toPascalCase x"
  by (simp add: toPascalCase_alnum_input capitalise_alnum capitalise_idem)

theorem toPascalCase_idempotent_witness:
  "list_all isAlnum ''nebula9Toolkit'' \<and> toPascalCase ''nebula9Toolkit'' = ''Nebula9Toolkit'' \<and>
   toPascalCase (toPascalCase ''nebula9Toolkit'') = toPascalCase ''nebula9Toolkit''"
proof -
  have a: "\<forall>c\<in>set ''nebula9Toolkit''. isAlnum c"
    by (simp add: isAlnum_def isUpper_def isLower_def isDigit_def less_eq_char_def)
  have "toPascalCase ''nebula9Toolkit'' = ''Nebula9Toolkit''"
    by code_simp
  with a toPascalCase_idempotent[OF a] show ?thesis by (simp add: list_all_iff)
qed

text \<open>
  The two places where the source calls \<^verbatim>\<open>toUpperCase\<close>: the segments of
  \<open>toPascalCase\<close> hold letters and digits only, and the text \<open>toApiMacro\<close> puts in
  upper case holds characters of \<^verbatim>\<open>[A-Za-z0-9_]\<close> only.
\<close>

lemma replaced_chars: "c \<in> set (replaceNonAlnumRuns v) \<Longrightarrow> isAlnum c \<or> c = CHR '' ''"
  by (induction v rule: replaceNonAlnumRuns.induct) (auto split: if_splits)

lemma split_sets: "\<forall>w\<in>set (split sep s). set w \<subseteq> set s - {sep}"
  by (induction s) (auto split: list.splits)

lemma split_chars: "w \<in> set (split sep s) \<Longrightarrow> c \<in> set w \<Longrightarrow> c \<in> set s \<and> c \<noteq> sep"
  using split_sets[of sep s] by auto

lemma segments_alnum:
  "segment \<in> set (split CHR '' '' (replaceNonAlnumRuns v)) \<Longrightarrow> c \<in> set segment \<Longrightarrow> isAlnum c"
  using split_chars[of segment "CHR '' ''" "replaceNonAlnumRuns v" c] replaced_chars[of c v]
  by blast

lemma camelBoundaries_chars:
  "c \<in> set (camelBoundaries s) \<Longrightarrow> c \<in> set s \<or> c = CHR ''_''"
  by (induction s rule: camelBoundaries.induct) (auto split: if_splits)

lemma collapseUnderscores_chars: "c \<in> set (collapseUnderscores s) \<Longrightarrow> c \<in> set s"
  by (induction s rule: collapseUnderscores.induct) (auto split: if_splits dest: set_dropWhileD)

lemma stripEdgeUnderscores_chars: "c \<in> set (stripEdgeUnderscores s) \<Longrightarrow> c \<in> set s"
  by (cases s) (auto simp: stripEdgeUnderscores_def Let_def split: if_splits dest: in_set_butlastD)

lemma macro_body_word:
  assumes "c \<in> set (stripEdgeUnderscores (collapseUnderscores
             (camelBoundaries (map (\<lambda>c. if isAlnum c then c else CHR ''_'') v))))"
  shows "isWord c"
proof -
  from assms have "c \<in> set (map (\<lambda>c. if isAlnum c then c else CHR ''_'') v) \<or> c = CHR ''_''"
    by (blast dest: stripEdgeUnderscores_chars collapseUnderscores_chars camelBoundaries_chars)
  then show ?thesis
    by (auto simp: isWord_def isAlnum_def split: if_splits)
qed



text \<open>The output of \<open>toPascalCase\<close> is of letters and digits, so it is idempotent on every input.\<close>

lemma toPascalCase_alnum: "\<forall>c\<in>set (toPascalCase v). isAlnum c"
proof
  fix c assume "c \<in> set (toPascalCase v)"
  then obtain segment where seg: "segment \<in> set (split CHR '' '' (replaceNonAlnumRuns v))"
    and c: "c \<in> set (capitalise segment)"
    by (auto simp: toPascalCase_def)
  from seg have "\<forall>d\<in>set segment. isAlnum d" using segments_alnum by blast
  then have "\<forall>d\<in>set (capitalise segment). isAlnum d" by (rule capitalise_alnum)
  with c show "isAlnum c" by blast
qed

lemma capitalise_append: "s \<noteq> [] \<Longrightarrow> capitalise (capitalise s @ r) = capitalise s @ r"
  by (cases s) (simp_all add: capitalise_def toUpperCase_def upperChar_idem)

lemma capitalise_concat:
  "\<forall>s\<in>set segments. s \<noteq> [] \<Longrightarrow>
   capitalise (concat (map capitalise segments)) = concat (map capitalise segments)"
  by (cases segments) (simp_all add: capitalise_append, simp add: capitalise_def toUpperCase_def)

lemma toPascalCase_idempotent_everywhere: "toPascalCase (toPascalCase v) = toPascalCase v"
proof -
  have "toPascalCase (toPascalCase v) = capitalise (toPascalCase v)"
    using toPascalCase_alnum by (rule toPascalCase_alnum_input)
  also have "\<dots> = toPascalCase v"
    unfolding toPascalCase_def by (rule capitalise_concat) simp
  finally show ?thesis .
qed


lemma sanitiseIdentifier_idempotent:
  "sanitiseIdentifier (sanitiseIdentifier v) = sanitiseIdentifier v"
proof -
  let ?t = "sanitiseIdentifier v"
  have w: "filter isWord ?t = ?t"
    using sanitise_word[of v] by (simp add: filter_id_conv)
  have d: "dropWhile (\<lambda>c. \<not> isIdentStart c) ?t = ?t"
  proof (cases ?t)
    case Nil
    then show ?thesis by simp
  next
    case (Cons c cs)
    then have "isIdentStart c"
      using sanitise_start[of v] by simp
    then show ?thesis unfolding Cons by simp
  qed
  show ?thesis
    unfolding sanitise_no_prefix[of "sanitiseIdentifier v"] w d ..
qed

lemma sanitiseIdentifier_Param: "sanitiseIdentifier ''Param'' = ''Param''"
  by code_simp

section \<open>Properties of the endpoint normalizer\<close>

lemma uniqueLoop_fresh: "uniqueLoop nm taken candidate index \<notin> set taken"
  by (induction nm taken candidate index rule: uniqueLoop.induct)
     (subst uniqueLoop.simps, simp)

lemma uniqueLoop_shape:
  "uniqueLoop nm taken candidate index = candidate \<or>
   (\<exists>k. uniqueLoop nm taken candidate index = nm @ showNat k)"
  by (induction nm taken candidate index rule: uniqueLoop.induct)
     (subst (1 2) uniqueLoop.simps, auto)

lemma uniqueLoop_free: "candidate \<notin> set taken \<Longrightarrow> uniqueLoop nm taken candidate index = candidate"
  by (subst uniqueLoop.simps) simp

lemma set_setAdd: "set (setAdd x xs) = insert x (set xs)"
  by (auto simp: setAdd_def)

text \<open>
  One step of \<open>sanitizedParameters\<close>, with the recursive call named: the shape every
  induction over the parameter list starts from.
\<close>

lemma sanitizedParameters_step:
  assumes "sanitizedParameters index taken (p # ps) = (rs, taken')"
  obtains u rs1 where
    "u = uniqueLoop (orElse (sanitiseIdentifier (pname p)) (''Param'' @ showNat index)) taken
           (orElse (sanitiseIdentifier (pname p)) (''Param'' @ showNat index)) 1"
    "sanitizedParameters index (setAdd u taken) ps = (rs1, taken')"
    "rs = \<lparr>pname = u, ptype = orElse (trim (ptype p)) ''float''\<rparr> # rs1"
proof -
  let ?safe = "orElse (sanitiseIdentifier (pname p)) (''Param'' @ showNat index)"
  let ?u = "uniqueLoop ?safe taken ?safe 1"
  obtain rs1 t2 where rec: "sanitizedParameters index (setAdd ?u taken) ps = (rs1, t2)"
    by (cases "sanitizedParameters index (setAdd ?u taken) ps")
  with assms have "rs = \<lparr>pname = ?u, ptype = orElse (trim (ptype p)) ''float''\<rparr> # rs1" "taken' = t2"
    by (auto simp: uniqueParameterName_def Let_def)
  with rec that show thesis by blast
qed

lemma sanitizedParameters_names:
  "sanitizedParameters index taken ps = (rs, taken') \<Longrightarrow>
     distinct (map pname rs) \<and> set (map pname rs) \<inter> set taken = {} \<and>
     set taken' = set taken \<union> set (map pname rs)"
proof (induction ps arbitrary: taken rs taken')
  case Nil
  then show ?case by simp
next
  case (Cons p ps)
  from Cons.prems obtain u rs1 where
    u: "u = uniqueLoop (orElse (sanitiseIdentifier (pname p)) (''Param'' @ showNat index)) taken
           (orElse (sanitiseIdentifier (pname p)) (''Param'' @ showNat index)) 1"
    and rec: "sanitizedParameters index (setAdd u taken) ps = (rs1, taken')"
    and rs: "rs = \<lparr>pname = u, ptype = orElse (trim (ptype p)) ''float''\<rparr> # rs1"
    by (rule sanitizedParameters_step)
  from Cons.IH[OF rec] have ih: "distinct (map pname rs1)"
    "set (map pname rs1) \<inter> set (setAdd u taken) = {}"
    "set taken' = set (setAdd u taken) \<union> set (map pname rs1)" by auto
  have "u \<notin> set taken" unfolding u by (rule uniqueLoop_fresh)
  with ih rs show ?case by (auto simp: set_setAdd)
qed

lemma sanitizedParameters_types:
  "sanitizedParameters index taken ps = (rs, taken') \<Longrightarrow>
   map ptype rs = map (\<lambda>p. orElse (trim (ptype p)) ''float'') ps"
proof (induction ps arbitrary: taken rs taken')
  case Nil
  then show ?case by simp
next
  case (Cons p ps)
  from Cons.prems obtain u rs1 where
    rec: "sanitizedParameters index (setAdd u taken) ps = (rs1, taken')"
    and rs: "rs = \<lparr>pname = u, ptype = orElse (trim (ptype p)) ''float''\<rparr> # rs1"
    by (rule sanitizedParameters_step)
  with Cons.IH[OF rec] show ?case by simp
qed

lemma showNat_nonempty: "showNat k \<noteq> []"
  by (subst showNat.simps) simp

lemma digitChar_digit: "d < 10 \<Longrightarrow> isDigit (digitChar d)"
  by (simp add: digitChar_def isDigit_def less_eq_char_def)

lemma showNat_last_digit: "isDigit (last (showNat k))"
  by (subst showNat.simps) (simp add: digitChar_digit)

lemma suffixed_not_context: "nm @ showNat k \<noteq> ''WorldContextObject''"
proof
  assume eq: "nm @ showNat k = ''WorldContextObject''"
  have "last (nm @ showNat k) = last (showNat k)"
    using showNat_nonempty by simp
  with eq have "last (showNat k) = CHR ''t''" by simp
  with showNat_last_digit[of k] show False
    by (simp add: isDigit_def less_eq_char_def)
qed

text \<open>
  A parameter whose sanitised name is the context name leaves that name in the set: it
  is taken already, or the renaming loop returns it unchanged.
\<close>

lemma sanitizedParameters_context_kept:
  "sanitizedParameters index taken ps = (rs, taken') \<Longrightarrow>
   list_ex (\<lambda>p. sanitiseIdentifier (pname p) = ''WorldContextObject'') ps \<Longrightarrow>
   ''WorldContextObject'' \<in> set taken'"
proof (induction ps arbitrary: taken rs taken')
  case Nil
  then show ?case by simp
next
  case (Cons p ps)
  from Cons.prems(1) obtain u rs1 where
    u: "u = uniqueLoop (orElse (sanitiseIdentifier (pname p)) (''Param'' @ showNat index)) taken
           (orElse (sanitiseIdentifier (pname p)) (''Param'' @ showNat index)) 1"
    and rec: "sanitizedParameters index (setAdd u taken) ps = (rs1, taken')"
    by (rule sanitizedParameters_step)
  from sanitizedParameters_names[OF rec] have sub: "set (setAdd u taken) \<subseteq> set taken'" by auto
  show ?case
  proof (cases "sanitiseIdentifier (pname p) = ''WorldContextObject''")
    case True
    then have s: "orElse (sanitiseIdentifier (pname p)) (''Param'' @ showNat index) = ''WorldContextObject''"
      by (simp add: orElse_def)
    have "''WorldContextObject'' \<in> set (setAdd u taken)"
    proof (cases "''WorldContextObject'' \<in> set taken")
      case True
      then show ?thesis by (simp add: set_setAdd)
    next
      case False
      then have "u = ''WorldContextObject''" unfolding u s by (rule uniqueLoop_free)
      then show ?thesis by (simp add: set_setAdd)
    qed
    with sub show ?thesis by auto
  next
    case False
    with Cons.prems(2) have "list_ex (\<lambda>p. sanitiseIdentifier (pname p) = ''WorldContextObject'') ps"
      by simp
    from Cons.IH[OF rec this] show ?thesis .
  qed
qed

text \<open>
  Conversely the renaming loop never makes the context name: a renamed parameter ends in
  a digit, and the placeholder starts with \<open>Param\<close>.
\<close>

lemma sanitizedParameters_context_origin:
  "sanitizedParameters index taken ps = (rs, taken') \<Longrightarrow>
   list_ex (\<lambda>p. pname p = ''WorldContextObject'') rs \<Longrightarrow>
   list_ex (\<lambda>p. sanitiseIdentifier (pname p) = ''WorldContextObject'') ps"
proof (induction ps arbitrary: taken rs taken')
  case Nil
  then show ?case by simp
next
  case (Cons p ps)
  let ?safe = "orElse (sanitiseIdentifier (pname p)) (''Param'' @ showNat index)"
  from Cons.prems(1) obtain u rs1 where
    u: "u = uniqueLoop ?safe taken ?safe 1"
    and rec: "sanitizedParameters index (setAdd u taken) ps = (rs1, taken')"
    and rs: "rs = \<lparr>pname = u, ptype = orElse (trim (ptype p)) ''float''\<rparr> # rs1"
    by (rule sanitizedParameters_step)
  show ?case
  proof (cases "u = ''WorldContextObject''")
    case True
    with uniqueLoop_shape[of ?safe taken ?safe 1] suffixed_not_context u
    have "?safe = ''WorldContextObject''" by metis
    then have "sanitiseIdentifier (pname p) = ''WorldContextObject''"
      by (auto simp: orElse_def split: if_splits)
    then show ?thesis by simp
  next
    case False
    with Cons.prems(2) rs have "list_ex (\<lambda>p. pname p = ''WorldContextObject'') rs1" by simp
    from Cons.IH[OF rec this] show ?thesis by simp
  qed
qed

lemma sanitizedParameters_context_iff:
  assumes "sanitizedParameters index [] ps = (rs, taken')"
  shows "list_ex (\<lambda>p. pname p = ''WorldContextObject'') rs \<longleftrightarrow>
         list_ex (\<lambda>p. sanitiseIdentifier (pname p) = ''WorldContextObject'') ps"
proof
  assume "list_ex (\<lambda>p. pname p = ''WorldContextObject'') rs"
  with assms show "list_ex (\<lambda>p. sanitiseIdentifier (pname p) = ''WorldContextObject'') ps"
    by (rule sanitizedParameters_context_origin)
next
  assume "list_ex (\<lambda>p. sanitiseIdentifier (pname p) = ''WorldContextObject'') ps"
  with assms have "''WorldContextObject'' \<in> set taken'"
    by (rule sanitizedParameters_context_kept)
  with sanitizedParameters_names[OF assms] show "list_ex (\<lambda>p. pname p = ''WorldContextObject'') rs"
    by (auto simp: list_ex_iff)
qed

lemma nparameters_normalizeFunction:
  "nparameters (normalizeFunction friendly index fn) =
     (if list_ex (\<lambda>p. pname p = ''WorldContextObject'') (fst (sanitizedParameters index [] (fparameters fn)))
      then fst (sanitizedParameters index [] (fparameters fn))
      else worldContext # fst (sanitizedParameters index [] (fparameters fn)))"
  by (simp add: normalizeFunction_def Let_def split: prod.splits)

lemma normalized_nth:
  "i < length fns \<Longrightarrow>
   normalizedBlueprintFunctions friendly fns ! i = normalizeFunction friendly i (fns ! i)"
  by (simp add: normalizedBlueprintFunctions_def nth_enumerate_eq)

lemma distinct_count_one:
  "distinct (map f xs) \<Longrightarrow> y \<in> f ` set xs \<Longrightarrow> length (filter (\<lambda>x. f x = y) xs) = 1"
proof (induction xs)
  case Nil
  then show ?case by simp
next
  case (Cons a xs)
  show ?case
  proof (cases "f a = y")
    case True
    from Cons.prems(1) have "f a \<notin> f ` set xs" by simp
    then have "\<forall>x\<in>set xs. f x \<noteq> f a" by (metis image_eqI)
    with True have "filter (\<lambda>x. f x = y) xs = []"
      by (simp add: filter_empty_conv)
    with True show ?thesis by simp
  next
    case False
    with Cons show ?thesis by auto
  qed
qed

text \<open>
  The parameters of a normalized function, for every list of functions: no name twice, at
  least one parameter, exactly one named \<open>WorldContextObject\<close>; the context parameter
  is put first exactly when no parameter's sanitised name is that name.
\<close>

lemma normalized_parameters_sanitised:
  assumes "i < length fns"
  shows "distinct (map pname (nparameters (normalizedBlueprintFunctions friendly fns ! i))) \<and>
         nparameters (normalizedBlueprintFunctions friendly fns ! i) \<noteq> [] \<and>
         length (filter (\<lambda>p. pname p = ''WorldContextObject'')
                   (nparameters (normalizedBlueprintFunctions friendly fns ! i))) = 1 \<and>
         nparameters (normalizedBlueprintFunctions friendly fns ! i) =
           (if list_ex (\<lambda>p. sanitiseIdentifier (pname p) = ''WorldContextObject'') (fparameters (fns ! i))
            then fst (sanitizedParameters i [] (fparameters (fns ! i)))
            else worldContext # fst (sanitizedParameters i [] (fparameters (fns ! i))))"
proof -
  let ?W = "''WorldContextObject''"
  obtain rs taken where sp: "sanitizedParameters i [] (fparameters (fns ! i)) = (rs, taken)"
    by (cases "sanitizedParameters i [] (fparameters (fns ! i))")
  let ?ps = "nparameters (normalizedBlueprintFunctions friendly fns ! i)"
  have iff: "list_ex (\<lambda>p. pname p = ?W) rs \<longleftrightarrow>
             list_ex (\<lambda>p. sanitiseIdentifier (pname p) = ?W) (fparameters (fns ! i))"
    using sp by (rule sanitizedParameters_context_iff)
  have ps: "?ps = (if list_ex (\<lambda>p. pname p = ?W) rs then rs else worldContext # rs)"
    using assms sp by (simp add: normalized_nth nparameters_normalizeFunction)
  have d: "distinct (map pname rs)"
    using sanitizedParameters_names[OF sp] by simp
  have dist: "distinct (map pname ?ps)"
    using d ps by (auto simp: worldContext_def list_ex_iff)
  have ne: "?ps \<noteq> []"
    using ps by (auto simp: list_ex_iff)
  have mem: "?W \<in> set (map pname ?ps)"
    using ps by (force simp: worldContext_def list_ex_iff)
  have one: "length (filter (\<lambda>p. pname p = ?W) ?ps) = 1"
    using dist mem by (intro distinct_count_one) auto
  from dist ne one ps iff sp show ?thesis by simp
qed

lemma stored_context_test:
  assumes "storedNames fns" and "i < length fns"
  shows "list_ex (\<lambda>p. sanitiseIdentifier (pname p) = ''WorldContextObject'') (fparameters (fns ! i))
         \<longleftrightarrow> list_ex (\<lambda>p. pname p = ''WorldContextObject'') (fparameters (fns ! i))"
proof -
  have "fns ! i \<in> set fns"
    using assms(2) by simp
  then have "\<forall>p\<in>set (fparameters (fns ! i)). sanitiseIdentifier (pname p) = pname p"
    using assms(1) by (simp add: storedNames_def list_all_iff)
  then show ?thesis
    by (simp add: list_ex_iff)
qed

text \<open>
  C1. For every list of functions, every friendly name and every function of the list,
  the names of the normalised parameters are pairwise distinct, the parameters are at
  least one, and exactly one of them is named \<open>WorldContextObject\<close>; the normaliser
  gives one function for each function of the list. On a list that the workbench can
  hold, where every parameter name is one that the sanitiser leaves as it is
  (\<open>reachable_storedNames\<close>): if no parameter of the function is named exactly
  \<open>WorldContextObject\<close>, the parameter of that name and of type \<open>UObject*\<close> is put
  first, before the parameters of the function; if one is, nothing is put before them.
\<close>

theorem normalized_parameters:
  assumes "i < length fns"
  shows "length (normalizedBlueprintFunctions friendly fns) = length fns \<and>
         distinct (map pname (nparameters (normalizedBlueprintFunctions friendly fns ! i))) \<and>
         nparameters (normalizedBlueprintFunctions friendly fns ! i) \<noteq> [] \<and>
         length (filter (\<lambda>p. pname p = ''WorldContextObject'')
                   (nparameters (normalizedBlueprintFunctions friendly fns ! i))) = 1 \<and>
         (storedNames fns \<longrightarrow>
            nparameters (normalizedBlueprintFunctions friendly fns ! i) =
              (if list_ex (\<lambda>p. pname p = ''WorldContextObject'') (fparameters (fns ! i))
               then fst (sanitizedParameters i [] (fparameters (fns ! i)))
               else \<lparr>pname = ''WorldContextObject'', ptype = ''UObject*''\<rparr>
                      # fst (sanitizedParameters i [] (fparameters (fns ! i)))))"
proof -
  have l: "length (normalizedBlueprintFunctions friendly fns) = length fns"
    by (simp add: normalizedBlueprintFunctions_def)
  have c: "nparameters (normalizedBlueprintFunctions friendly fns ! i) =
              (if list_ex (\<lambda>p. pname p = ''WorldContextObject'') (fparameters (fns ! i))
               then fst (sanitizedParameters i [] (fparameters (fns ! i)))
               else \<lparr>pname = ''WorldContextObject'', ptype = ''UObject*''\<rparr>
                      # fst (sanitizedParameters i [] (fparameters (fns ! i))))"
    if "storedNames fns"
    using normalized_parameters_sanitised[OF assms, of friendly]
    unfolding stored_context_test[OF that assms] worldContext_def by (rule conjunct2[THEN conjunct2, THEN conjunct2])
  from l c normalized_parameters_sanitised[OF assms, of friendly] show ?thesis
    by blast
qed

theorem normalized_parameters_witness:
  "storedNames
      [\<lparr>fname = ''Aim'', freturnType = ''float'', fdescription = ''Aims.'',
        fparameters = [\<lparr>pname = ''Target'', ptype = ''AActor*''\<rparr>,
                       \<lparr>pname = ''Target'', ptype = ''FVector''\<rparr>]\<rparr>] \<and>
   nparameters (normalizedBlueprintFunctions ''Nebula Toolkit''
      [\<lparr>fname = ''Aim'', freturnType = ''float'', fdescription = ''Aims.'',
        fparameters = [\<lparr>pname = ''Target'', ptype = ''AActor*''\<rparr>,
                       \<lparr>pname = ''Target'', ptype = ''FVector''\<rparr>]\<rparr>] ! 0)
   = [\<lparr>pname = ''WorldContextObject'', ptype = ''UObject*''\<rparr>,
      \<lparr>pname = ''Target'', ptype = ''AActor*''\<rparr>,
      \<lparr>pname = ''Target1'', ptype = ''FVector''\<rparr>]"
proof -
  let ?fn = "\<lparr>fname = ''Aim'', freturnType = ''float'', fdescription = ''Aims.'',
        fparameters = [\<lparr>pname = ''Target'', ptype = ''AActor*''\<rparr>,
                       \<lparr>pname = ''Target'', ptype = ''FVector''\<rparr>]\<rparr>"
  have sp: "sanitizedParameters 0 [] (fparameters ?fn) =
     ([\<lparr>pname = ''Target'', ptype = ''AActor*''\<rparr>, \<lparr>pname = ''Target1'', ptype = ''FVector''\<rparr>],
      [''Target'', ''Target1''])"
    by code_simp
  have st: "storedNames [?fn]"
    by code_simp
  from normalized_parameters[where fns = "[?fn]" and i = 0 and friendly = "''Nebula Toolkit''"] sp st
  show ?thesis by simp
qed

lemma sanitizedParameters_length:
  "sanitizedParameters index taken ps = (rs, taken') \<Longrightarrow> length rs = length ps"
  using sanitizedParameters_types[of index taken ps rs taken'] by (metis length_map)


text \<open>
  A text includes another (\<^verbatim>\<open>includes\<close> of the source's strings) when it starts with
  it at some place.
\<close>

lemma includesText_empty: "includesText t []"
  by (induction t) (simp_all add: startsWith_def)

lemma includesText_here: "includesText (x @ post) x"
  by (cases x) (simp_all add: includesText_empty startsWith_def)

lemma includesText_later: "includesText t x \<Longrightarrow> includesText (u @ t) x"
  by (induction u) simp_all

lemma declaration_signature:
  "includesText (functionDeclaration fn)
           (join '', '' (map parameterText (nparameters fn)))"
  unfolding functionDeclaration_def
  by (intro includesText_later includesText_here)

lemma body_signature:
  "includesText (functionBody bc lc fn)
           (join '', '' (map parameterText (nparameters fn)))"
  unfolding functionBody_def Let_def
  by (intro includesText_later includesText_here)

text \<open>
  C9. A parameter whose type is blank (empty, or white space only) has the type
  \<open>float\<close> in the normalized function, at its own place after the context parameter
  when one is put first; its entry in the signature is \<open>float\<close> and its name, and that
  signature is the one in the function's declaration and in its definition.
\<close>

theorem blank_type_float:
  assumes i: "i < length (fparameters fn)"
    and blank: "trim (ptype (fparameters fn ! i)) = []"
  shows "(\<exists>k. length (nparameters (normalizeFunction friendly index fn)) = length (fparameters fn) + k \<and>
           ptype (nparameters (normalizeFunction friendly index fn) ! (i + k)) = ''float'' \<and>
           map parameterText (nparameters (normalizeFunction friendly index fn)) ! (i + k) =
             ''float '' @ pname (nparameters (normalizeFunction friendly index fn) ! (i + k))) \<and>
         includesText (functionDeclaration (normalizeFunction friendly index fn))
           (join '', '' (map parameterText (nparameters (normalizeFunction friendly index fn)))) \<and>
         includesText (functionBody blueprintClass' logCategory' (normalizeFunction friendly index fn))
           (join '', '' (map parameterText (nparameters (normalizeFunction friendly index fn))))"
proof -
  obtain rs taken where sp: "sanitizedParameters index [] (fparameters fn) = (rs, taken)"
    by (cases "sanitizedParameters index [] (fparameters fn)")
  have len: "length rs = length (fparameters fn)"
    using sp by (rule sanitizedParameters_length)
  have "map ptype rs ! i = orElse (trim (ptype (fparameters fn ! i))) ''float''"
    using sanitizedParameters_types[OF sp] i by simp
  with blank i len have ty: "ptype (rs ! i) = ''float''"
    by (simp add: orElse_def)
  let ?ps = "nparameters (normalizeFunction friendly index fn)"
  have "\<exists>k. length ?ps = length (fparameters fn) + k \<and> ptype (?ps ! (i + k)) = ''float'' \<and>
       map parameterText ?ps ! (i + k) = ''float '' @ pname (?ps ! (i + k))"
  proof (cases "list_ex (\<lambda>p. pname p = ''WorldContextObject'') rs")
    case True
    then have "?ps = rs" using sp by (simp add: nparameters_normalizeFunction)
    with ty len i have "length ?ps = length (fparameters fn) + 0 \<and> ptype (?ps ! (i + 0)) = ''float'' \<and>
       map parameterText ?ps ! (i + 0) = ''float '' @ pname (?ps ! (i + 0))"
      by (simp add: parameterText_def)
    then show ?thesis by blast
  next
    case False
    then have "?ps = worldContext # rs" using sp by (simp add: nparameters_normalizeFunction)
    with ty len i have "length ?ps = length (fparameters fn) + 1 \<and> ptype (?ps ! (i + 1)) = ''float'' \<and>
       map parameterText ?ps ! (i + 1) = ''float '' @ pname (?ps ! (i + 1))"
      by (simp add: parameterText_def)
    then show ?thesis by blast
  qed
  with declaration_signature body_signature show ?thesis by blast
qed

theorem blank_type_float_witness:
  "map parameterText (nparameters (normalizeFunction ''Nebula Toolkit'' 0
      \<lparr>fname = ''Aim'', freturnType = ''float'', fdescription = ''Aims.'',
        fparameters = [\<lparr>pname = ''Target'', ptype = ''AActor*''\<rparr>,
                       \<lparr>pname = ''Speed'', ptype = ''  ''\<rparr>]\<rparr>))
   = [''UObject* WorldContextObject'', ''AActor* Target'', ''float Speed'']"
proof -
  let ?fn = "\<lparr>fname = ''Aim'', freturnType = ''float'', fdescription = ''Aims.'',
        fparameters = [\<lparr>pname = ''Target'', ptype = ''AActor*''\<rparr>,
                       \<lparr>pname = ''Speed'', ptype = ''  ''\<rparr>]\<rparr>"
  have i: "1 < length (fparameters ?fn)" by simp
  have b: "trim (ptype (fparameters ?fn ! 1)) = []" by code_simp
  note blank_type_float[OF i b, of "''Nebula Toolkit''" 0]
  moreover have "map parameterText (nparameters (normalizeFunction ''Nebula Toolkit'' 0 ?fn))
    = [''UObject* WorldContextObject'', ''AActor* Target'', ''float Speed'']"
    by code_simp
  ultimately show ?thesis by simp
qed

section \<open>Properties of the display name and of the derived identifiers\<close>

text \<open>
  The fallback of the display name: a name that sanitises to the empty string gives
  \<open>GeneratedFunction\<close>.
\<close>

lemma displayName_fallback:
  "sanitiseIdentifier (fname fn) = [] \<Longrightarrow>
   displayName (normalizeFunction friendly index fn) = ''GeneratedFunction''"
proof -
  assume "sanitiseIdentifier (fname fn) = []"
  moreover have "toPascalCase ''GeneratedFunction'' = ''GeneratedFunction''" by code_simp
  ultimately show ?thesis
    by (simp add: normalizeFunction_def Let_def orElse_def split: prod.splits)
qed

text \<open>
  C10. The claim: a function whose name sanitises to the empty string is displayed as
  \<open>GeneratedFunction\<close>, so that the display name of a normalized function is never
  empty. The fallback is applied before \<open>toPascalCase\<close>, not after it: the name
  \<open>_\<close> sanitises to itself, which is not empty, and \<open>toPascalCase\<close> then deletes
  the underscore. The display name of that function is the empty string.
\<close>

theorem displayName_underscore:
  "sanitiseIdentifier ''_'' = ''_'' \<and>
   displayName (normalizeFunction ''Nebula Toolkit'' 2
     \<lparr>fname = ''_'', freturnType = ''void'', fdescription = ''Generated function.'',
      fparameters = []\<rparr>) = []"
  by code_simp

text \<open>
  C3, as amended. When the plugin code name is the empty string the module name falls
  back to \<open>AddonModule\<close>, and the export macro, the log category and the class names
  are those of that name; nothing is raised (every function of the model is total, as
  the string operations of the source are).
\<close>

theorem empty_code_name:
  assumes "pluginName md = []"
  shows "moduleName md = ''AddonModule'' \<and>
         moduleApiMacro (moduleName md) = ''ADDON_MODULE_API'' \<and>
         logCategory (moduleName md) = ''LogAddonModule'' \<and>
         moduleClass (moduleName md) = ''FAddonModuleModule'' \<and>
         blueprintClass (moduleName md) = ''UAddonModuleBlueprintLibrary'' \<and>
         asyncActionClass (moduleName md) = ''UAddonModuleAsyncAction''"
proof -
  have "toPascalCase ''AddonModule'' = ''AddonModule''" by code_simp
  with assms have m: "moduleName md = ''AddonModule''"
    by (simp add: moduleName_def orElse_def)
  have "toApiMacro ''AddonModule'' = ''ADDON_MODULE_API''" by code_simp
  with m show ?thesis
    by (simp add: moduleApiMacro_def logCategory_def moduleClass_def blueprintClass_def
        asyncActionClass_def)
qed

theorem empty_code_name_witness:
  "pluginName (defaultMetadata\<lparr>pluginName := []\<rparr>) = [] \<and>
   moduleName (defaultMetadata\<lparr>pluginName := []\<rparr>) = ''AddonModule'' \<and>
   logCategory (moduleName (defaultMetadata\<lparr>pluginName := []\<rparr>)) = ''LogAddonModule''"
  using empty_code_name[of "defaultMetadata\<lparr>pluginName := []\<rparr>"]
  by (simp add: logCategory_def)

text \<open>
  The claim as first stated has the identifiers degrade to empty strings; with the empty
  code name none of them is empty.
\<close>

theorem empty_code_name_counterexample:
  "moduleName (defaultMetadata\<lparr>pluginName := []\<rparr>) \<noteq> [] \<and>
   moduleApiMacro (moduleName (defaultMetadata\<lparr>pluginName := []\<rparr>)) \<noteq> [] \<and>
   logCategory (moduleName (defaultMetadata\<lparr>pluginName := []\<rparr>)) \<noteq> [] \<and>
   moduleClass (moduleName (defaultMetadata\<lparr>pluginName := []\<rparr>)) \<noteq> []"
  by code_simp

text \<open>
  The identifiers do degrade for a code name that is not empty but has no letter or
  digit: the module name is empty then, and the other identifiers are their fixed parts.
\<close>

lemma replace_no_alnum:
  assumes "v \<noteq> []" "\<forall>c\<in>set v. \<not> isAlnum c"
  shows "replaceNonAlnumRuns v = '' ''"
proof (cases v)
  case Nil
  with assms(1) show ?thesis by simp
next
  case (Cons a list)
  with assms(2) have dw: "dropWhile (\<lambda>d. \<not> isAlnum d) list = []" and a: "\<not> isAlnum a"
    by simp_all
  show ?thesis unfolding Cons using a by (simp add: dw del: dropWhile_eq_Nil_conv)
qed

lemma code_name_without_alnum:
  assumes "pluginName md \<noteq> []" "\<forall>c\<in>set (pluginName md). \<not> isAlnum c"
  shows "moduleName md = [] \<and> moduleApiMacro (moduleName md) = ''_API'' \<and>
         logCategory (moduleName md) = ''Log'' \<and> moduleClass (moduleName md) = ''FModule''"
proof -
  have "toPascalCase (pluginName md) = []"
    using assms by (simp add: toPascalCase_def replace_no_alnum)
  with assms(1) have m: "moduleName md = []"
    by (simp add: moduleName_def orElse_def)
  have "toApiMacro [] = ''_API''" by code_simp
  with m show ?thesis
    by (simp add: moduleApiMacro_def logCategory_def moduleClass_def)
qed


section \<open>Properties of the edit operations\<close>

text \<open>
  The loop of \<open>handleAddBlueprintFunction\<close> against the specification's words: an
  entry is pushed exactly when it is well formed.
\<close>

lemma pushParameter_wellFormed:
  "pushParameter parameters entry =
     (if wellFormed entry then parameters @ [entryParameter entry] else parameters)"
proof (cases "map trim (split CHR '':'' entry)")
  case Nil
  then show ?thesis
    by (simp add: pushParameter_def wellFormed_def entryName_def entryType_def)
next
  case (Cons a rest)
  then show ?thesis
    by (cases rest)
       (simp_all add: pushParameter_def wellFormed_def entryName_def entryType_def
          entryParameter_def)
qed

lemma foldl_pushParameter:
  "foldl pushParameter acc entries = acc @ map entryParameter (filter wellFormed entries)"
  by (induction entries arbitrary: acc) (simp_all add: pushParameter_wellFormed)

lemma draftParameters_parsed:
  "draftParameters draft = map entryParameter (filter wellFormed (draftEntries draft))"
  by (simp add: draftParameters_def draftEntries_def foldl_pushParameter)

text \<open>
  Every parameter name that the workbench stores is one that the sanitiser leaves as it
  is: the names of the initial functions are, and the add operation stores the
  sanitised name of an entry, or \<open>Param\<close>.
\<close>

lemma entryParameter_stored:
  "sanitiseIdentifier (pname (entryParameter entry)) = pname (entryParameter entry)"
  by (simp add: entryParameter_def orElse_def sanitiseIdentifier_idempotent sanitiseIdentifier_Param)

lemma draftParameters_stored:
  "list_all (\<lambda>p. sanitiseIdentifier (pname p) = pname p) (draftParameters draft)"
  by (simp add: draftParameters_parsed list_all_iff entryParameter_stored)

lemma defaultFunctions_stored: "storedNames defaultFunctions"
  by code_simp

lemma removed_subset:
  "set (map snd (filter (\<lambda>(currentIndex, _). currentIndex \<noteq> index) (enumerate n xs))) \<subseteq> set xs"
  by (auto simp: in_set_enumerate_eq)

lemma reachable_storedNames: "reachable s \<Longrightarrow> storedNames (blueprintFunctions s)"
proof (induction rule: reachable.induct)
  case initial
  show ?case by (simp add: initialWorkbench_def defaultFunctions_stored)
next
  case (metadataChange s edit)
  then show ?case by (cases edit) simp_all
next
  case (toggleFeature s feature)
  then show ?case by (cases feature) simp_all
next
  case (addBlueprintFunction s)
  then show ?case
    by (simp add: handleAddBlueprintFunction_def storedNames_def draftParameters_stored)
next
  case (removeBlueprintFunction s index)
  then show ?case
    using removed_subset[of index 0 "blueprintFunctions s"]
    by (auto simp: handleRemoveBlueprintFunction_def storedNames_def list_all_iff)
qed simp_all

text \<open>
  C8, as amended. When the function name of the form is blank the operation changes
  nothing. Otherwise it appends one function to the list; the draft is read as entries
  separated by commas, each a name and a type separated by a colon, the entries without
  a name or without a type are dropped, and every other entry gives one parameter, in
  the order of the draft, with its name sanitised (\<open>Param\<close> when nothing is left of
  it) and its type trimmed. The metadata and the functions already in the list stay as
  they were, and the four fields of the form are set to fixed texts: the name and the
  description empty, the return type \<open>void\<close>, the parameter draft
  \<open>ContextActor:AActor*\<close>.
\<close>

theorem add_endpoint:
  "handleAddBlueprintFunction s =
     (if trim (newFunctionName s) = [] then s
      else \<lparr>metadata = metadata s,
            blueprintFunctions =
              blueprintFunctions s @
              [\<lparr>fname = trim (newFunctionName s),
                freturnType = orElse (trim (newFunctionReturnType s)) ''void'',
                fdescription = orElse (trim (newFunctionDescription s)) ''Generated function.'',
                fparameters =
                  map entryParameter (filter wellFormed (draftEntries (parameterDraft s)))\<rparr>],
            newFunctionName = [],
            newFunctionReturnType = ''void'',
            newFunctionDescription = [],
            parameterDraft = ''ContextActor:AActor*''\<rparr>)"
  by (cases s) (simp add: handleAddBlueprintFunction_def draftParameters_parsed)

theorem add_endpoint_witness:
  "blueprintFunctions (handleAddBlueprintFunction
      (initialWorkbench\<lparr>newFunctionName := '' Aim '',
         parameterDraft := ''Speed:float, :FName, Broken, my name : FVector, 9:int''\<rparr>))
   = defaultFunctions @
     [\<lparr>fname = ''Aim'', freturnType = ''void'', fdescription = ''Generated function.'',
       fparameters = [\<lparr>pname = ''Speed'', ptype = ''float''\<rparr>,
                      \<lparr>pname = ''myname'', ptype = ''FVector''\<rparr>,
                      \<lparr>pname = ''Param'', ptype = ''int''\<rparr>]\<rparr>]"
proof -
  let ?s = "initialWorkbench\<lparr>newFunctionName := '' Aim '',
         parameterDraft := ''Speed:float, :FName, Broken, my name : FVector, 9:int''\<rparr>"
  have n: "trim (newFunctionName ?s) = ''Aim''" by code_simp
  have r: "orElse (trim (newFunctionReturnType ?s)) ''void'' = ''void''" by code_simp
  have d: "orElse (trim (newFunctionDescription ?s)) ''Generated function.'' = ''Generated function.''"
    by code_simp
  have p: "map entryParameter (filter wellFormed (draftEntries (parameterDraft ?s))) =
      [\<lparr>pname = ''Speed'', ptype = ''float''\<rparr>, \<lparr>pname = ''myname'', ptype = ''FVector''\<rparr>,
       \<lparr>pname = ''Param'', ptype = ''int''\<rparr>]"
    by code_simp
  have f: "blueprintFunctions ?s = defaultFunctions" by (simp add: initialWorkbench_def)
  show ?thesis
    using add_endpoint[of ?s] unfolding n r d p f by simp
qed

text \<open>
  The claim as first stated appends the well-formed pairs for every draft and leaves the
  rest of the state alone. With a blank function name the well-formed entry
  \<open>Speed:float\<close> is appended to nothing: the state is returned as it was. With a name,
  the parameter draft itself is replaced by the fixed text \<open>ContextActor:AActor*\<close>.
\<close>

theorem add_endpoint_counterexample:
  "wellFormed ''Speed:float'' \<and>
   handleAddBlueprintFunction
      (initialWorkbench\<lparr>newFunctionName := '' '', parameterDraft := ''Speed:float''\<rparr>)
     = initialWorkbench\<lparr>newFunctionName := '' '', parameterDraft := ''Speed:float''\<rparr> \<and>
   parameterDraft (handleAddBlueprintFunction
      (initialWorkbench\<lparr>newFunctionName := ''Aim'', parameterDraft := ''Speed:float''\<rparr>))
     = ''ContextActor:AActor*''"
  by code_simp

section \<open>Properties of the descriptor and of the code blocks\<close>

lemma notin_map: "y \<notin> set (map f xs) \<Longrightarrow> x \<in> set xs \<Longrightarrow> f x \<noteq> y"
  by auto

lemma codeBlocks_titles:
  "map title (codeBlocks md h) =
     [''.uplugin descriptor'', ''Runtime module header'', ''Runtime module source'', ''Build.cs'']
     @ (if enableBlueprintLibrary md \<and> snd (hBlueprintHeader h) \<noteq> []
        then [''Blueprint library header'', ''Blueprint library source''] else [])
     @ (if enableAsyncActions md \<and> snd (hAsyncHeader h) \<noteq> []
        then [''Async action header'', ''Async action source''] else [])
     @ (if enableEditorModule md \<and> snd (hEditorHeader h) \<noteq> []
        then [''Editor module header'', ''Editor module source''] else [])"
  by (simp add: codeBlocks_def Let_def)

lemma quoteJSON_literals:
  \<open>quoteJSON ''FileVersion'' = ''"FileVersion"''\<close>
  \<open>quoteJSON ''Version'' = ''"Version"''\<close>
  \<open>quoteJSON ''VersionName'' = ''"VersionName"''\<close>
  \<open>quoteJSON ''FriendlyName'' = ''"FriendlyName"''\<close>
  \<open>quoteJSON ''Description'' = ''"Description"''\<close>
  \<open>quoteJSON ''Category'' = ''"Category"''\<close>
  \<open>quoteJSON ''CreatedBy'' = ''"CreatedBy"''\<close>
  \<open>quoteJSON ''CreatedByURL'' = ''"CreatedByURL"''\<close>
  \<open>quoteJSON ''EngineVersion'' = ''"EngineVersion"''\<close>
  \<open>quoteJSON ''Modules'' = ''"Modules"''\<close>
  \<open>quoteJSON ''Plugins'' = ''"Plugins"''\<close>
  \<open>quoteJSON ''SupportedTargetPlatforms'' = ''"SupportedTargetPlatforms"''\<close>
  \<open>quoteJSON ''Name'' = ''"Name"''\<close>
  \<open>quoteJSON ''Type'' = ''"Type"''\<close>
  \<open>quoteJSON ''LoadingPhase'' = ''"LoadingPhase"''\<close>
  \<open>quoteJSON ''Enabled'' = ''"Enabled"''\<close>
  \<open>quoteJSON ''Unreal Addon Architect'' = ''"Unreal Addon Architect"''\<close>
  \<open>quoteJSON ''https://agentic-8d19d81d.vercel.app'' = ''"https://agentic-8d19d81d.vercel.app"''\<close>
  \<open>quoteJSON ''5.3.0'' = ''"5.3.0"''\<close>
  \<open>quoteJSON ''Runtime'' = ''"Runtime"''\<close>
  \<open>quoteJSON ''Editor'' = ''"Editor"''\<close>
  \<open>quoteJSON ''Default'' = ''"Default"''\<close>
  \<open>quoteJSON ''GameplayTasks'' = ''"GameplayTasks"''\<close>
  \<open>quoteJSON ''PostDefault'' = ''"PostDefault"''\<close>
  \<open>quoteJSON ''PostEngineInit'' = ''"PostEngineInit"''\<close>
  \<open>quoteJSON ''PostSplash'' = ''"PostSplash"''\<close>
  by code_simp+

lemma showNat_literals: "showNat 3 = ''3''" "showNat 1 = ''1''" "showNat (Suc 0) = ''1''"
  by code_simp+

lemma quoteJSON_phaseText: "quoteJSON (phaseText p) = [CHR 0x22] @ phaseText p @ [CHR 0x22]"
  by (cases p) (simp_all add: quoteJSON_literals)

lemma split_nonempty: "split sep s \<noteq> []"
  by (induction s) (auto split: list.splits)

lemma descriptorJson_text:
  \<open>descriptorJson md moduleName' =
     ''{\<newline>''
     @ ''  "FileVersion": 3,\<newline>''
     @ ''  "Version": 1,\<newline>''
     @ ''  "VersionName": '' @ quoteJSON (version md) @ '',\<newline>''
     @ ''  "FriendlyName": '' @ quoteJSON (friendlyName md) @ '',\<newline>''
     @ ''  "Description": '' @ quoteJSON (description md) @ '',\<newline>''
     @ ''  "Category": '' @ quoteJSON (category md) @ '',\<newline>''
     @ ''  "CreatedBy": "Unreal Addon Architect",\<newline>''
     @ ''  "CreatedByURL": "https://agentic-8d19d81d.vercel.app",\<newline>''
     @ ''  "EngineVersion": "5.3.0",\<newline>''
     @ ''  "Modules": [\<newline>''
     @ ''    {\<newline>''
     @ ''      "Name": '' @ quoteJSON moduleName' @ '',\<newline>''
     @ ''      "Type": "Runtime",\<newline>''
     @ ''      "LoadingPhase": "'' @ phaseText (loadingPhase md) @ ''"\<newline>''
     @ ''    }''
     @ (if enableEditorModule md
        then '',\<newline>''
          @ ''    {\<newline>''
          @ ''      "Name": '' @ quoteJSON (moduleName' @ ''Editor'') @ '',\<newline>''
          @ ''      "Type": "Editor",\<newline>''
          @ ''      "LoadingPhase": "Default"\<newline>''
          @ ''    }''
        else [])
     @ ''\<newline>''
     @ ''  ],\<newline>''
     @ ''  "Plugins": ''
     @ (if enableAsyncActions md
        then ''[\<newline>''
          @ ''    {\<newline>''
          @ ''      "Name": "GameplayTasks",\<newline>''
          @ ''      "Enabled": true\<newline>''
          @ ''    }\<newline>''
          @ ''  ]''
        else ''[]'')
     @ '',\<newline>''
     @ ''  "SupportedTargetPlatforms": [\<newline>''
     @ ''    '' @ join ('',\<newline>'' @ ''    '')
                     (map (\<lambda>entry. quoteJSON (trim entry)) (split CHR '','' (supportedTargets md)))
     @ ''\<newline>''
     @ ''  ]\<newline>''
     @ ''}''\<close>
  by (cases "enableEditorModule md"; cases "enableAsyncActions md")
     (simp_all add: descriptorJson_def stringify_def descriptorObject_def descriptorModules_def
        quoteJSON_literals showNat_literals quoteJSON_phaseText split_nonempty comp_def)

lemma descriptor_block:
  "take 1 (shown (history @ [(same, md, fns)])) =
     [\<lparr>title = ''.uplugin descriptor'', filename = pluginName md @ ''.uplugin'',
       language = ''json'', code = descriptorJson md (moduleName md)\<rparr>]"
  by (simp add: shown_artifacts artifacts_def render_first codeBlocks_def firstRender_def Let_def)

lemma async_blocks_absent:
  assumes "\<not> enableAsyncActions md"
  shows "\<forall>block\<in>set (shown (history @ [(same, md, fns)])).
          title block \<noteq> ''Async action header'' \<and> title block \<noteq> ''Async action source''"
proof -
  have h: "''Async action header'' \<notin> set (map title (shown (history @ [(same, md, fns)])))"
    and s: "''Async action source'' \<notin> set (map title (shown (history @ [(same, md, fns)])))"
    unfolding shown_artifacts artifacts_def codeBlocks_titles using assms by simp_all
  show ?thesis
    by (intro ballI conjI) (erule notin_map[OF h], erule notin_map[OF s])
qed

text \<open>
  C4. The generated descriptor is the text below, whatever the metadata. Its modules
  hold the entry of the runtime module, with the loading phase that was selected, and
  after it an entry of type \<open>Editor\<close> exactly when the editor-module flag is set; the
  loading phase of that entry is \<open>Default\<close>, whatever the phase of the runtime module.
  Its \<open>Plugins\<close> list holds the one entry \<open>GameplayTasks\<close> when the async-action flag
  is set and is empty when it is not. This text is the code of the first code block
  shown, the \<open>.uplugin descriptor\<close>, at the first render and at any later one; and with
  the async-action flag off no code block of the asynchronous action is shown.
\<close>

theorem descriptor_conditional_entries:
  \<open>descriptorJson md moduleName' =
          ''{\<newline>''
     @ ''  "FileVersion": 3,\<newline>''
     @ ''  "Version": 1,\<newline>''
     @ ''  "VersionName": '' @ quoteJSON (version md) @ '',\<newline>''
     @ ''  "FriendlyName": '' @ quoteJSON (friendlyName md) @ '',\<newline>''
     @ ''  "Description": '' @ quoteJSON (description md) @ '',\<newline>''
     @ ''  "Category": '' @ quoteJSON (category md) @ '',\<newline>''
     @ ''  "CreatedBy": "Unreal Addon Architect",\<newline>''
     @ ''  "CreatedByURL": "https://agentic-8d19d81d.vercel.app",\<newline>''
     @ ''  "EngineVersion": "5.3.0",\<newline>''
     @ ''  "Modules": [\<newline>''
     @ ''    {\<newline>''
     @ ''      "Name": '' @ quoteJSON moduleName' @ '',\<newline>''
     @ ''      "Type": "Runtime",\<newline>''
     @ ''      "LoadingPhase": "'' @ phaseText (loadingPhase md) @ ''"\<newline>''
     @ ''    }''
     @ (if enableEditorModule md
        then '',\<newline>''
          @ ''    {\<newline>''
          @ ''      "Name": '' @ quoteJSON (moduleName' @ ''Editor'') @ '',\<newline>''
          @ ''      "Type": "Editor",\<newline>''
          @ ''      "LoadingPhase": "Default"\<newline>''
          @ ''    }''
        else [])
     @ ''\<newline>''
     @ ''  ],\<newline>''
     @ ''  "Plugins": ''
     @ (if enableAsyncActions md
        then ''[\<newline>''
          @ ''    {\<newline>''
          @ ''      "Name": "GameplayTasks",\<newline>''
          @ ''      "Enabled": true\<newline>''
          @ ''    }\<newline>''
          @ ''  ]''
        else ''[]'')
     @ '',\<newline>''
     @ ''  "SupportedTargetPlatforms": [\<newline>''
     @ ''    '' @ join ('',\<newline>'' @ ''    '')
                     (map (\<lambda>entry. quoteJSON (trim entry)) (split CHR '','' (supportedTargets md)))
     @ ''\<newline>''
     @ ''  ]\<newline>''
     @ ''}'' \<and>
   take 1 (shown (history @ [(same, md, fns)])) =
     [\<lparr>title = ''.uplugin descriptor'', filename = pluginName md @ ''.uplugin'',
       language = ''json'', code = descriptorJson md (moduleName md)\<rparr>] \<and>
   (\<not> enableAsyncActions md \<longrightarrow>
      (\<forall>block\<in>set (shown (history @ [(same, md, fns)])).
          title block \<noteq> ''Async action header'' \<and> title block \<noteq> ''Async action source''))\<close>
  by (intro conjI impI) (rule descriptorJson_text descriptor_block, rule descriptor_block, erule async_blocks_absent)

theorem descriptor_conditional_entries_witness:
  \<open>\<not> enableAsyncActions (defaultMetadata\<lparr>enableAsyncActions := False\<rparr>) \<and>
   descriptorJson (defaultMetadata\<lparr>enableAsyncActions := False\<rparr>) ''NebulaToolkit'' =
     ''{\<newline>''
     @ ''  "FileVersion": 3,\<newline>''
     @ ''  "Version": 1,\<newline>''
     @ ''  "VersionName": "1.0.0",\<newline>''
     @ ''  "FriendlyName": "Nebula Toolkit",\<newline>''
     @ ''  "Description": "Mission scripting utilities, smart triggers, and authoring helpers for cinematic gameplay sequences.",\<newline>''
     @ ''  "Category": "Gameplay",\<newline>''
     @ ''  "CreatedBy": "Unreal Addon Architect",\<newline>''
     @ ''  "CreatedByURL": "https://agentic-8d19d81d.vercel.app",\<newline>''
     @ ''  "EngineVersion": "5.3.0",\<newline>''
     @ ''  "Modules": [\<newline>''
     @ ''    {\<newline>''
     @ ''      "Name": "NebulaToolkit",\<newline>''
     @ ''      "Type": "Runtime",\<newline>''
     @ ''      "LoadingPhase": "PostEngineInit"\<newline>''
     @ ''    },\<newline>''
     @ ''    {\<newline>''
     @ ''      "Name": "NebulaToolkitEditor",\<newline>''
     @ ''      "Type": "Editor",\<newline>''
     @ ''      "LoadingPhase": "Default"\<newline>''
     @ ''    }\<newline>''
     @ ''  ],\<newline>''
     @ ''  "Plugins": [],\<newline>''
     @ ''  "SupportedTargetPlatforms": [\<newline>''
     @ ''    "Win64",\<newline>''
     @ ''    "Mac",\<newline>''
     @ ''    "Linux"\<newline>''
     @ ''  ]\<newline>''
     @ ''}''\<close>
proof -
  have inst: \<open>     ''{\<newline>''
     @ ''  "FileVersion": 3,\<newline>''
     @ ''  "Version": 1,\<newline>''
     @ ''  "VersionName": '' @ quoteJSON (version (defaultMetadata\<lparr>enableAsyncActions := False\<rparr>)) @ '',\<newline>''
     @ ''  "FriendlyName": '' @ quoteJSON (friendlyName (defaultMetadata\<lparr>enableAsyncActions := False\<rparr>)) @ '',\<newline>''
     @ ''  "Description": '' @ quoteJSON (description (defaultMetadata\<lparr>enableAsyncActions := False\<rparr>)) @ '',\<newline>''
     @ ''  "Category": '' @ quoteJSON (category (defaultMetadata\<lparr>enableAsyncActions := False\<rparr>)) @ '',\<newline>''
     @ ''  "CreatedBy": "Unreal Addon Architect",\<newline>''
     @ ''  "CreatedByURL": "https://agentic-8d19d81d.vercel.app",\<newline>''
     @ ''  "EngineVersion": "5.3.0",\<newline>''
     @ ''  "Modules": [\<newline>''
     @ ''    {\<newline>''
     @ ''      "Name": '' @ quoteJSON ''NebulaToolkit'' @ '',\<newline>''
     @ ''      "Type": "Runtime",\<newline>''
     @ ''      "LoadingPhase": "'' @ phaseText (loadingPhase (defaultMetadata\<lparr>enableAsyncActions := False\<rparr>)) @ ''"\<newline>''
     @ ''    }''
     @ (if enableEditorModule (defaultMetadata\<lparr>enableAsyncActions := False\<rparr>)
        then '',\<newline>''
          @ ''    {\<newline>''
          @ ''      "Name": '' @ quoteJSON (''NebulaToolkit'' @ ''Editor'') @ '',\<newline>''
          @ ''      "Type": "Editor",\<newline>''
          @ ''      "LoadingPhase": "Default"\<newline>''
          @ ''    }''
        else [])
     @ ''\<newline>''
     @ ''  ],\<newline>''
     @ ''  "Plugins": ''
     @ (if enableAsyncActions (defaultMetadata\<lparr>enableAsyncActions := False\<rparr>)
        then ''[\<newline>''
          @ ''    {\<newline>''
          @ ''      "Name": "GameplayTasks",\<newline>''
          @ ''      "Enabled": true\<newline>''
          @ ''    }\<newline>''
          @ ''  ]''
        else ''[]'')
     @ '',\<newline>''
     @ ''  "SupportedTargetPlatforms": [\<newline>''
     @ ''    '' @ join ('',\<newline>'' @ ''    '')
                     (map (\<lambda>entry. quoteJSON (trim entry)) (split CHR '','' (supportedTargets (defaultMetadata\<lparr>enableAsyncActions := False\<rparr>))))
     @ ''\<newline>''
     @ ''  ]\<newline>''
     @ ''}'' =
     ''{\<newline>''
     @ ''  "FileVersion": 3,\<newline>''
     @ ''  "Version": 1,\<newline>''
     @ ''  "VersionName": "1.0.0",\<newline>''
     @ ''  "FriendlyName": "Nebula Toolkit",\<newline>''
     @ ''  "Description": "Mission scripting utilities, smart triggers, and authoring helpers for cinematic gameplay sequences.",\<newline>''
     @ ''  "Category": "Gameplay",\<newline>''
     @ ''  "CreatedBy": "Unreal Addon Architect",\<newline>''
     @ ''  "CreatedByURL": "https://agentic-8d19d81d.vercel.app",\<newline>''
     @ ''  "EngineVersion": "5.3.0",\<newline>''
     @ ''  "Modules": [\<newline>''
     @ ''    {\<newline>''
     @ ''      "Name": "NebulaToolkit",\<newline>''
     @ ''      "Type": "Runtime",\<newline>''
     @ ''      "LoadingPhase": "PostEngineInit"\<newline>''
     @ ''    },\<newline>''
     @ ''    {\<newline>''
     @ ''      "Name": "NebulaToolkitEditor",\<newline>''
     @ ''      "Type": "Editor",\<newline>''
     @ ''      "LoadingPhase": "Default"\<newline>''
     @ ''    }\<newline>''
     @ ''  ],\<newline>''
     @ ''  "Plugins": [],\<newline>''
     @ ''  "SupportedTargetPlatforms": [\<newline>''
     @ ''    "Win64",\<newline>''
     @ ''    "Mac",\<newline>''
     @ ''    "Linux"\<newline>''
     @ ''  ]\<newline>''
     @ ''}''\<close>
    by code_simp
  show ?thesis
    using descriptor_conditional_entries
      [where md = "defaultMetadata\<lparr>enableAsyncActions := False\<rparr>"
         and moduleName' = "''NebulaToolkit''" and history = "[]" and same = False
         and fns = defaultFunctions]
    unfolding inst by (simp add: defaultMetadata_def)
qed

section \<open>Properties of the build script\<close>

text \<open>The eight sets the flags can give, sorted by evaluation.\<close>

lemma sort_public:
  "sort [''Core'', ''CoreUObject'', ''Engine''] = [''Core'', ''CoreUObject'', ''Engine'']"
  "sort [''Core'', ''CoreUObject'', ''Engine'', ''Kismet''] = [''Core'', ''CoreUObject'', ''Engine'', ''Kismet'']"
  "sort [''Core'', ''CoreUObject'', ''Engine'', ''GameplayTasks''] = [''Core'', ''CoreUObject'', ''Engine'', ''GameplayTasks'']"
  "sort [''Core'', ''CoreUObject'', ''Engine'', ''Kismet'', ''GameplayTasks''] =
     [''Core'', ''CoreUObject'', ''Engine'', ''GameplayTasks'', ''Kismet'']"
  by code_simp+

lemma sort_private:
  "sort [''Slate'', ''SlateCore''] = [''Slate'', ''SlateCore'']"
  "sort [''Slate'', ''SlateCore'', ''UMG''] = [''Slate'', ''SlateCore'', ''UMG'']"
  "sort [''Slate'', ''SlateCore'', ''UnrealEd'', ''LevelSequence''] =
     [''LevelSequence'', ''Slate'', ''SlateCore'', ''UnrealEd'']"
  "sort [''Slate'', ''SlateCore'', ''UMG'', ''UnrealEd'', ''LevelSequence''] =
     [''LevelSequence'', ''Slate'', ''SlateCore'', ''UMG'', ''UnrealEd'']"
  by code_simp+

lemma publicDeps_cases:
  "publicDeps md =
     [''Core'', ''CoreUObject'', ''Engine'']
     @ (if enableBlueprintLibrary md then [''Kismet''] else [])
     @ (if enableAsyncActions md then [''GameplayTasks''] else [])"
  by (simp add: publicDeps_def setAdd_def)

lemma privateDeps_cases:
  "privateDeps md =
     [''Slate'', ''SlateCore'']
     @ (if enableBlueprintLibrary md then [''UMG''] else [])
     @ (if enableEditorModule md then [''UnrealEd'', ''LevelSequence''] else [])"
  by (simp add: privateDeps_def setAdd_def)

lemma sort_publicDeps:
  "sort (publicDeps md) =
     [''Core'', ''CoreUObject'', ''Engine'']
     @ (if enableAsyncActions md then [''GameplayTasks''] else [])
     @ (if enableBlueprintLibrary md then [''Kismet''] else [])"
  unfolding publicDeps_cases
  by (cases "enableBlueprintLibrary md"; cases "enableAsyncActions md") (simp_all only: sort_public if_True if_False append.simps)

lemma sort_privateDeps:
  "sort (privateDeps md) =
     (if enableEditorModule md then [''LevelSequence''] else [])
     @ [''Slate'', ''SlateCore'']
     @ (if enableBlueprintLibrary md then [''UMG''] else [])
     @ (if enableEditorModule md then [''UnrealEd''] else [])"
  unfolding privateDeps_cases
  by (cases "enableBlueprintLibrary md"; cases "enableEditorModule md") (simp_all only: sort_private if_True if_False append.simps)

lemma formatDependency_public:
  \<open>formatDependency (publicDeps md) =
     ''            "Core",\<newline>''
     @ ''            "CoreUObject",\<newline>''
     @ ''            "Engine"''
     @ (if enableAsyncActions md then '',\<newline>'' @ ''            "GameplayTasks"'' else [])
     @ (if enableBlueprintLibrary md then '',\<newline>'' @ ''            "Kismet"'' else [])\<close>
  unfolding formatDependency_def sort_publicDeps by simp

lemma formatDependency_private:
  \<open>formatDependency (privateDeps md) =
     (if enableEditorModule md then ''            "LevelSequence",\<newline>'' else [])
     @ ''            "Slate",\<newline>''
     @ ''            "SlateCore"''
     @ (if enableBlueprintLibrary md then '',\<newline>'' @ ''            "UMG"'' else [])
     @ (if enableEditorModule md then '',\<newline>'' @ ''            "UnrealEd"'' else [])\<close>
  unfolding formatDependency_def sort_privateDeps by simp

lemma publicDeps_set:
  "set (publicDeps md) =
     {''Core'', ''CoreUObject'', ''Engine''}
     \<union> (if enableBlueprintLibrary md then {''Kismet''} else {})
     \<union> (if enableAsyncActions md then {''GameplayTasks''} else {})"
  unfolding publicDeps_cases by auto

lemma privateDeps_set:
  "set (privateDeps md) =
     {''Slate'', ''SlateCore''}
     \<union> (if enableBlueprintLibrary md then {''UMG''} else {})
     \<union> (if enableEditorModule md then {''UnrealEd'', ''LevelSequence''} else {})"
  unfolding privateDeps_cases by auto

lemma printed_public_sorted:
  "sorted ([''Core'', ''CoreUObject'', ''Engine'']
     @ (if enableAsyncActions (md::PluginMetadata) then [''GameplayTasks''] else [])
     @ (if enableBlueprintLibrary md then [''Kismet''] else []))"
  using sorted_sort[of "publicDeps md"] unfolding sort_publicDeps .

lemma printed_private_sorted:
  "sorted ((if enableEditorModule (md::PluginMetadata) then [''LevelSequence''] else [])
     @ [''Slate'', ''SlateCore'']
     @ (if enableBlueprintLibrary md then [''UMG''] else [])
     @ (if enableEditorModule md then [''UnrealEd''] else []))"
  using sorted_sort[of "privateDeps md"] unfolding sort_privateDeps .

text \<open>The whole script, with the two lists printed out.\<close>

lemma buildScript_text:
  \<open>buildScript md moduleName' =
     ''using UnrealBuildTool;\<newline>''
     @ ''\<newline>''
     @ ''public class '' @ moduleName' @ '' : ModuleRules\<newline>''
     @ ''{\<newline>''
     @ ''    public '' @ moduleName' @ ''(ReadOnlyTargetRules Target) : base(Target)\<newline>''
     @ ''    {\<newline>''
     @ ''        PCHUsage = PCHUsageMode.UseExplicitOrSharedPCHs;\<newline>''
     @ ''\<newline>''
     @ ''        PublicDependencyModuleNames.AddRange(new string[]\<newline>''
     @ ''        {\<newline>''
     @ (''            "Core",\<newline>''
      @ ''            "CoreUObject",\<newline>''
      @ ''            "Engine"''
      @ (if enableAsyncActions md then '',\<newline>'' @ ''            "GameplayTasks"'' else [])
      @ (if enableBlueprintLibrary md then '',\<newline>'' @ ''            "Kismet"'' else [])) @ ''\<newline>''
     @ ''        });\<newline>''
     @ ''\<newline>''
     @ ''        PrivateDependencyModuleNames.AddRange(new string[]\<newline>''
     @ ''        {\<newline>''
     @ ((if enableEditorModule md then ''            "LevelSequence",\<newline>'' else [])
      @ ''            "Slate",\<newline>''
      @ ''            "SlateCore"''
      @ (if enableBlueprintLibrary md then '',\<newline>'' @ ''            "UMG"'' else [])
      @ (if enableEditorModule md then '',\<newline>'' @ ''            "UnrealEd"'' else [])) @ ''\<newline>''
     @ ''        });\<newline>''
     @ ''\<newline>''
     @ ''        if (Target.bBuildEditor)\<newline>''
     @ ''        {\<newline>''
     @ ''            PrivateDependencyModuleNames.AddRange(new string[]\<newline>''
     @ ''            {\<newline>''
     @ ''                "AssetTools",\<newline>''
     @ ''                "EditorFramework"\<newline>''
     @ ''            });\<newline>''
     @ ''        }\<newline>''
     @ ''    }\<newline>''
     @ ''}''\<close>
  unfolding buildScript_def formatDependency_public formatDependency_private by (rule refl)

text \<open>
  C5, as amended. The public names start from \<open>Core\<close>, \<open>CoreUObject\<close>, \<open>Engine\<close>
  and the private ones from \<open>Slate\<close>, \<open>SlateCore\<close>; the function-library flag adds
  \<open>Kismet\<close> to the public and \<open>UMG\<close> to the private names, the async-action flag
  \<open>GameplayTasks\<close> to the public ones, the editor-module flag \<open>UnrealEd\<close> and
  \<open>LevelSequence\<close> to the private ones. The script prints each set in sorted order, one
  quoted name a line, and after the two lists it always prints the fixed pair
  \<open>AssetTools\<close>, \<open>EditorFramework\<close> under \<^verbatim>\<open>if (Target.bBuildEditor)\<close>. The names
  the editor-module flag adds are printed in the private list before that condition, not
  under it. The script is given whole, for every metadata and module name.
\<close>

theorem buildScript_dependencies:
  \<open>set (publicDeps md) =
     {''Core'', ''CoreUObject'', ''Engine''}
     \<union> (if enableBlueprintLibrary md then {''Kismet''} else {})
     \<union> (if enableAsyncActions md then {''GameplayTasks''} else {}) \<and>
   set (privateDeps md) =
     {''Slate'', ''SlateCore''}
     \<union> (if enableBlueprintLibrary md then {''UMG''} else {})
     \<union> (if enableEditorModule md then {''UnrealEd'', ''LevelSequence''} else {}) \<and>
   sorted ([''Core'', ''CoreUObject'', ''Engine'']
     @ (if enableAsyncActions md then [''GameplayTasks''] else [])
     @ (if enableBlueprintLibrary md then [''Kismet''] else [])) \<and>
   sorted ((if enableEditorModule md then [''LevelSequence''] else [])
     @ [''Slate'', ''SlateCore'']
     @ (if enableBlueprintLibrary md then [''UMG''] else [])
     @ (if enableEditorModule md then [''UnrealEd''] else [])) \<and>
   buildScript md moduleName' =
     ''using UnrealBuildTool;\<newline>''
     @ ''\<newline>''
     @ ''public class '' @ moduleName' @ '' : ModuleRules\<newline>''
     @ ''{\<newline>''
     @ ''    public '' @ moduleName' @ ''(ReadOnlyTargetRules Target) : base(Target)\<newline>''
     @ ''    {\<newline>''
     @ ''        PCHUsage = PCHUsageMode.UseExplicitOrSharedPCHs;\<newline>''
     @ ''\<newline>''
     @ ''        PublicDependencyModuleNames.AddRange(new string[]\<newline>''
     @ ''        {\<newline>''
     @ (''            "Core",\<newline>''
      @ ''            "CoreUObject",\<newline>''
      @ ''            "Engine"''
      @ (if enableAsyncActions md then '',\<newline>'' @ ''            "GameplayTasks"'' else [])
      @ (if enableBlueprintLibrary md then '',\<newline>'' @ ''            "Kismet"'' else [])) @ ''\<newline>''
     @ ''        });\<newline>''
     @ ''\<newline>''
     @ ''        PrivateDependencyModuleNames.AddRange(new string[]\<newline>''
     @ ''        {\<newline>''
     @ ((if enableEditorModule md then ''            "LevelSequence",\<newline>'' else [])
      @ ''            "Slate",\<newline>''
      @ ''            "SlateCore"''
      @ (if enableBlueprintLibrary md then '',\<newline>'' @ ''            "UMG"'' else [])
      @ (if enableEditorModule md then '',\<newline>'' @ ''            "UnrealEd"'' else [])) @ ''\<newline>''
     @ ''        });\<newline>''
     @ ''\<newline>''
     @ ''        if (Target.bBuildEditor)\<newline>''
     @ ''        {\<newline>''
     @ ''            PrivateDependencyModuleNames.AddRange(new string[]\<newline>''
     @ ''            {\<newline>''
     @ ''                "AssetTools",\<newline>''
     @ ''                "EditorFramework"\<newline>''
     @ ''            });\<newline>''
     @ ''        }\<newline>''
     @ ''    }\<newline>''
     @ ''}''\<close>
  by (intro conjI)
     (rule publicDeps_set privateDeps_set printed_public_sorted printed_private_sorted
        buildScript_text)+

theorem buildScript_dependencies_witness:
  \<open>buildScript
     (defaultMetadata\<lparr>enableEditorModule := False, enableBlueprintLibrary := False,
        enableAsyncActions := False\<rparr>) ''NebulaToolkit'' =
     ''using UnrealBuildTool;\<newline>''
     @ ''\<newline>''
     @ ''public class NebulaToolkit : ModuleRules\<newline>''
     @ ''{\<newline>''
     @ ''    public NebulaToolkit(ReadOnlyTargetRules Target) : base(Target)\<newline>''
     @ ''    {\<newline>''
     @ ''        PCHUsage = PCHUsageMode.UseExplicitOrSharedPCHs;\<newline>''
     @ ''\<newline>''
     @ ''        PublicDependencyModuleNames.AddRange(new string[]\<newline>''
     @ ''        {\<newline>''
     @ ''            "Core",\<newline>''
     @ ''            "CoreUObject",\<newline>''
     @ ''            "Engine"\<newline>''
     @ ''        });\<newline>''
     @ ''\<newline>''
     @ ''        PrivateDependencyModuleNames.AddRange(new string[]\<newline>''
     @ ''        {\<newline>''
     @ ''            "Slate",\<newline>''
     @ ''            "SlateCore"\<newline>''
     @ ''        });\<newline>''
     @ ''\<newline>''
     @ ''        if (Target.bBuildEditor)\<newline>''
     @ ''        {\<newline>''
     @ ''            PrivateDependencyModuleNames.AddRange(new string[]\<newline>''
     @ ''            {\<newline>''
     @ ''                "AssetTools",\<newline>''
     @ ''                "EditorFramework"\<newline>''
     @ ''            });\<newline>''
     @ ''        }\<newline>''
     @ ''    }\<newline>''
     @ ''}''\<close>
  using buildScript_dependencies
    [of "defaultMetadata\<lparr>enableEditorModule := False, enableBlueprintLibrary := False,
        enableAsyncActions := False\<rparr>" "''NebulaToolkit''"]
  by simp

text \<open>
  The claim as first stated has the editor-only dependencies under the condition on the
  build target. With the initial metadata, where the editor-module flag is set,
  \<open>LevelSequence\<close> and \<open>UnrealEd\<close> stand in the private list that is added for every
  target; without the flag neither is a private name.
\<close>

theorem buildScript_dependencies_counterexample:
  \<open>enableEditorModule defaultMetadata \<and>
   ''UnrealEd'' \<notin> set (privateDeps (defaultMetadata\<lparr>enableEditorModule := False\<rparr>)) \<and>
   ''LevelSequence'' \<notin> set (privateDeps (defaultMetadata\<lparr>enableEditorModule := False\<rparr>)) \<and>
   buildScript defaultMetadata ''NebulaToolkit'' =
     ''using UnrealBuildTool;\<newline>''
     @ ''\<newline>''
     @ ''public class NebulaToolkit : ModuleRules\<newline>''
     @ ''{\<newline>''
     @ ''    public NebulaToolkit(ReadOnlyTargetRules Target) : base(Target)\<newline>''
     @ ''    {\<newline>''
     @ ''        PCHUsage = PCHUsageMode.UseExplicitOrSharedPCHs;\<newline>''
     @ ''\<newline>''
     @ ''        PublicDependencyModuleNames.AddRange(new string[]\<newline>''
     @ ''        {\<newline>''
     @ ''            "Core",\<newline>''
     @ ''            "CoreUObject",\<newline>''
     @ ''            "Engine",\<newline>''
     @ ''            "GameplayTasks",\<newline>''
     @ ''            "Kismet"\<newline>''
     @ ''        });\<newline>''
     @ ''\<newline>''
     @ ''        PrivateDependencyModuleNames.AddRange(new string[]\<newline>''
     @ ''        {\<newline>''
     @ ''            "LevelSequence",\<newline>''
     @ ''            "Slate",\<newline>''
     @ ''            "SlateCore",\<newline>''
     @ ''            "UMG",\<newline>''
     @ ''            "UnrealEd"\<newline>''
     @ ''        });\<newline>''
     @ ''\<newline>''
     @ ''        if (Target.bBuildEditor)\<newline>''
     @ ''        {\<newline>''
     @ ''            PrivateDependencyModuleNames.AddRange(new string[]\<newline>''
     @ ''            {\<newline>''
     @ ''                "AssetTools",\<newline>''
     @ ''                "EditorFramework"\<newline>''
     @ ''            });\<newline>''
     @ ''        }\<newline>''
     @ ''    }\<newline>''
     @ ''}''\<close>
  by (simp add: buildScript_text privateDeps_cases defaultMetadata_def)

end
